theory Spec2Isabelle
  imports Complex_Main
begin

section \<open>Numbers and strings of the host language\<close>

text \<open>
  The particle engine (class \<open>ParticleSystem\<close>, \<open>Particle\<close>, \<open>GeometricParticle\<close>, the
  \<open>ParticleManager\<close> registry and the \<open>PerformanceManager\<close> governor) computes on JavaScript
  numbers. They are modelled as real numbers: rounding and overflow are not modelled. On
  real numbers the square root is only taken of a sum of two squares and \<open>Math.atan2\<close> is
  defined everywhere, so the one operation of the engine that can yield \<open>NaN\<close> or an
  infinity is a division by zero. Division is therefore explicit: \<open>js_div a b\<close> is \<open>None\<close>
  for a zero divisor, and a function below returns \<open>None\<close> exactly when it executes such a
  division (where the source would go on with a number that is not finite).
\<close>

definition js_div :: "real \<Rightarrow> real \<Rightarrow> real option" where
  "js_div a b = (if b = 0 then None else Some (a / b))"

text \<open>\<open>Math.floor\<close>, \<open>Math.min\<close> and \<open>Math.atan2\<close> (angle of the point \<open>(x, y)\<close> in \<open>(-pi, pi]\<close>).\<close>

definition js_floor :: "real \<Rightarrow> real" where
  "js_floor v = of_int \<lfloor>v\<rfloor>"

definition atan2 :: "real \<Rightarrow> real \<Rightarrow> real" where
  "atan2 y x =
     (if 0 < x then arctan (y / x)
      else if x < 0 then (if 0 \<le> y then arctan (y / x) + pi else arctan (y / x) - pi)
      else if 0 < y then pi / 2
      else if y < 0 then - (pi / 2)
      else 0)"

text \<open>
  \<open>String.prototype.replace\<close> with a string pattern: the first occurrence of the pattern
  is replaced, a subject without the pattern is returned as it is. (The replacement is
  always a formatted number here, so the \<open>$\<close> patterns of a replacement play no role.)
\<close>

fun replace_first :: "string \<Rightarrow> string \<Rightarrow> string \<Rightarrow> string" where
  "replace_first pat rep [] = (if pat = [] then rep else [])"
| "replace_first pat rep (c # cs) =
     (if take (length pat) (c # cs) = pat then rep @ drop (length pat) (c # cs)
      else c # replace_first pat rep cs)"

text \<open>
  A loop \<open>for (let i = 0; i < n; i++)\<close> over a number \<open>n\<close> runs \<open>ceil n\<close> times, and not at
  all for \<open>n \<le> 0\<close>.
\<close>

definition iterations :: "real \<Rightarrow> nat" where
  "iterations n = nat \<lceil>n\<rceil>"

section \<open>Configuration\<close>

text \<open>
  \<open>this.config\<close> of a \<open>ParticleSystem\<close>. The fields \<open>shapes\<close> and \<open>cfgRotationSpeed\<close>
  (\<open>rotationSpeed\<close> in the source) are set by \<open>GeometricParticleSystem\<close> and read by
  \<open>GeometricParticle\<close> only.
\<close>

record config =
  particleCount :: real
  particleSize :: real
  particleSpeed :: real
  connectionDistance :: real
  particleColor :: string
  connectionColor :: string
  mouseInteraction :: bool
  mouseRadius :: real
  responsive :: bool
  shapes :: "string list"
  cfgRotationSpeed :: real

text \<open>The \<open>options\<close> object of the constructor: a key is present (\<open>Some\<close>) or absent.\<close>

record options =
  optParticleCount :: "real option"
  optParticleSize :: "real option"
  optParticleSpeed :: "real option"
  optConnectionDistance :: "real option"
  optParticleColor :: "string option"
  optConnectionColor :: "string option"
  optMouseInteraction :: "bool option"
  optMouseRadius :: "real option"
  optResponsive :: "bool option"
  optShapes :: "string list option"
  optRotationSpeed :: "real option"

datatype system_kind = Plain | Geometric

definition or_default :: "'a option \<Rightarrow> 'a \<Rightarrow> 'a" where
  "or_default v d = (case v of Some a \<Rightarrow> a | None \<Rightarrow> d)"

text \<open>
  The configuration the constructor builds. Every default is written
  \<open>options.k || d\<close> and followed by the spread \<open>...options\<close>, which writes a present key
  back as it is (also \<open>0\<close>); so a present key wins and an absent one takes the default.
  \<open>GeometricParticleSystem\<close> first puts its own defaults under the options.
\<close>

definition make_config :: "system_kind \<Rightarrow> options \<Rightarrow> config" where
  "make_config k opts =
     \<lparr> particleCount = or_default (optParticleCount opts) (case k of Plain \<Rightarrow> 50 | Geometric \<Rightarrow> 30),
       particleSize = or_default (optParticleSize opts) 2,
       particleSpeed = or_default (optParticleSpeed opts) 0.5,
       connectionDistance = or_default (optConnectionDistance opts) 150,
       particleColor = or_default (optParticleColor opts) ''rgba(46, 204, 113, 0.6)'',
       connectionColor = or_default (optConnectionColor opts) ''rgba(46, 204, 113, 0.2)'',
       mouseInteraction = or_default (optMouseInteraction opts) True,
       mouseRadius = or_default (optMouseRadius opts) 100,
       responsive = or_default (optResponsive opts) True,
       shapes = or_default (optShapes opts)
         (case k of Plain \<Rightarrow> [] | Geometric \<Rightarrow> [''triangle'', ''square'', ''hexagon'']),
       cfgRotationSpeed = or_default (optRotationSpeed opts) (case k of Plain \<Rightarrow> 0 | Geometric \<Rightarrow> 0.02) \<rparr>"

section \<open>Particles\<close>

text \<open>
  The canvas: \<open>width\<close> and \<open>height\<close> of an HTML canvas element are unsigned integers;
  \<open>hasParent\<close> says that \<open>canvas.parentNode\<close> is not null (the canvas is in its container).
\<close>

record canvas =
  width :: nat
  height :: nat
  hasParent :: bool

record mouse =
  mx :: real
  my :: real

text \<open>
  Class \<open>Particle\<close>; \<open>px\<close>, \<open>py\<close> and \<open>psize\<close> are the fields \<open>x\<close>, \<open>y\<close> and \<open>size\<close>.
  Class \<open>GeometricParticle\<close> extends it; its \<open>shape\<close> is \<open>None\<close> where the source reads
  \<open>undefined\<close> from the palette.
\<close>

record particle =
  px :: real
  py :: real
  originalX :: real
  originalY :: real
  vx :: real
  vy :: real
  psize :: real
  opacity :: real
  angle :: real
  amplitude :: real
  frequency :: real

record gparticle = particle +
  shape :: "string option"
  rotation :: real
  rotationSpeed :: real

datatype any_particle = Circle particle | Poly gparticle

text \<open>
  \<open>Math.random\<close> is a sequence of numbers given from outside; \<open>shift k r\<close> is the
  sequence after \<open>k\<close> draws.
\<close>

definition shift :: "nat \<Rightarrow> (nat \<Rightarrow> real) \<Rightarrow> nat \<Rightarrow> real" where
  "shift k r = (\<lambda>i. r (i + k))"

text \<open>
  \<open>new Particle(Math.random() * canvas.width, Math.random() * canvas.height, config)\<close>:
  two draws for the position, seven in the constructor.
\<close>

definition new_Particle :: "(nat \<Rightarrow> real) \<Rightarrow> canvas \<Rightarrow> config \<Rightarrow> particle" where
  "new_Particle r c cfg =
     \<lparr> px = r 0 * real (width c), py = r 1 * real (height c),
       originalX = r 0 * real (width c), originalY = r 1 * real (height c),
       vx = (r 2 - 0.5) * particleSpeed cfg,
       vy = (r 3 - 0.5) * particleSpeed cfg,
       psize = r 4 * particleSize cfg + 1,
       opacity = r 5 * 0.5 + 0.5,
       angle = r 6 * pi * 2,
       amplitude = r 7 * 20 + 10,
       frequency = r 8 * 0.02 + 0.01 \<rparr>"

definition pick :: "'a list \<Rightarrow> real \<Rightarrow> 'a option" where
  "pick xs v = (if 0 \<le> \<lfloor>v\<rfloor> \<and> nat \<lfloor>v\<rfloor> < length xs then Some (xs ! nat \<lfloor>v\<rfloor>) else None)"

definition new_GeometricParticle :: "(nat \<Rightarrow> real) \<Rightarrow> canvas \<Rightarrow> config \<Rightarrow> gparticle" where
  "new_GeometricParticle r c cfg =
     particle.extend (new_Particle r c cfg)
       \<lparr> shape = pick (shapes cfg) (r 9 * real (length (shapes cfg))),
         rotation = r 10 * pi * 2,
         rotationSpeed = (r 11 - 0.5) * cfgRotationSpeed cfg \<rparr>"

subsection \<open>\<open>Particle.update\<close>\<close>

text \<open>Basic movement, floating effect and the boundary check with wrapping.\<close>

definition move :: "canvas \<Rightarrow> 'a particle_scheme \<Rightarrow> 'a particle_scheme" where
  "move c p =
     (let x1 = px p + vx p;
          y1 = py p + vy p;
          a1 = angle p + frequency p;
          y2 = y1 + sin a1 * 0.5;
          x2 = (if x1 < 0 then real (width c) else x1);
          x3 = (if x2 > real (width c) then 0 else x2);
          y3 = (if y2 < 0 then real (height c) else y2);
          y4 = (if y3 > real (height c) then 0 else y3)
      in p\<lparr>px := x3, py := y4, angle := a1\<rparr>)"

text \<open>Mouse interaction: the only division of \<open>update\<close>.\<close>

definition repel :: "mouse \<Rightarrow> config \<Rightarrow> 'a particle_scheme \<Rightarrow> 'a particle_scheme option" where
  "repel m cfg p =
     (if mouseInteraction cfg \<and> mx m > - 500 then
        (let dx = mx m - px p;
             dy = my m - py p;
             distance = sqrt (dx * dx + dy * dy)
         in if distance < mouseRadius cfg then
              (case js_div (mouseRadius cfg - distance) (mouseRadius cfg) of
                 None \<Rightarrow> None
               | Some force \<Rightarrow>
                   (let a = atan2 dy dx
                    in Some (p\<lparr>vx := vx p - cos a * force * 0.5,
                               vy := vy p - sin a * force * 0.5\<rparr>)))
            else Some p)
      else Some p)"

text \<open>Friction, then the gentle return to the original position.\<close>

definition settle :: "'a particle_scheme \<Rightarrow> 'a particle_scheme" where
  "settle p =
     (let vx1 = vx p * 0.99;
          vy1 = vy p * 0.99
      in p\<lparr>vx := vx1 + (originalX p - px p) * 0.001,
            vy := vy1 + (originalY p - py p) * 0.001\<rparr>)"

definition update :: "canvas \<Rightarrow> mouse \<Rightarrow> config \<Rightarrow> 'a particle_scheme \<Rightarrow> 'a particle_scheme option" where
  "update c m cfg p = map_option settle (repel m cfg (move c p))"

text \<open>\<open>GeometricParticle.update\<close>: \<open>super.update\<close>, then the rotation advances.\<close>

definition g_update :: "canvas \<Rightarrow> mouse \<Rightarrow> config \<Rightarrow> gparticle \<Rightarrow> gparticle option" where
  "g_update c m cfg g =
     map_option (\<lambda>g1. g1\<lparr>rotation := rotation g1 + rotationSpeed g1\<rparr>) (update c m cfg g)"

text \<open>Dynamic dispatch of \<open>particle.update(...)\<close> over the two classes.\<close>

fun update_any :: "canvas \<Rightarrow> mouse \<Rightarrow> config \<Rightarrow> any_particle \<Rightarrow> any_particle option" where
  "update_any c m cfg (Circle p) = map_option Circle (update c m cfg p)"
| "update_any c m cfg (Poly g) = map_option Poly (g_update c m cfg g)"

fun pos_x :: "any_particle \<Rightarrow> real" where
  "pos_x (Circle p) = px p"
| "pos_x (Poly g) = px g"

fun pos_y :: "any_particle \<Rightarrow> real" where
  "pos_y (Circle p) = py p"
| "pos_y (Poly g) = py g"

subsection \<open>Drawing\<close>

text \<open>
  What a frame paints is kept as the list of drawing operations on the 2D context:
  a filled disc (\<open>arc\<close> over the full circle, then \<open>fill\<close>) with centre, radius and fill
  style; a stroked line with stroke style, line width and end points; a stroked closed path
  with stroke style, line width, translation, rotation and its points. A style is the
  string assigned to \<open>fillStyle\<close> or \<open>strokeStyle\<close>. The conversion of a number to a string
  is the language's own; every drawing function takes it as its first argument.
\<close>

datatype draw_op =
  FillDisc real real real string
| StrokeLine string real real real real real
| StrokePath string real real real real "(real \<times> real) list"

definition draw :: "(real \<Rightarrow> string) \<Rightarrow> config \<Rightarrow> 'a particle_scheme \<Rightarrow> draw_op list" where
  "draw num_str cfg p =
     [FillDisc (px p) (py p) (psize p)
        (replace_first ''0.6'' (num_str (opacity p)) (particleColor cfg)),
      FillDisc (px p) (py p) (psize p * 2)
        (replace_first ''0.6'' (num_str (opacity p * 0.1)) (particleColor cfg))]"

definition drawTriangle :: "gparticle \<Rightarrow> (real \<times> real) list" where
  "drawTriangle g = (let s = psize g * 3 in [(0, - s), (- s, s), (s, s)])"

definition drawSquare :: "gparticle \<Rightarrow> (real \<times> real) list" where
  "drawSquare g = (let s = psize g * 2 in [(- s, - s), (- s + s * 2, - s), (- s + s * 2, - s + s * 2), (- s, - s + s * 2)])"

definition drawHexagon :: "gparticle \<Rightarrow> (real \<times> real) list" where
  "drawHexagon g =
     (let s = psize g * 2.5
      in map (\<lambda>i. (cos (real i * pi / 3) * s, sin (real i * pi / 3) * s)) [0..<6])"

definition g_draw :: "(real \<Rightarrow> string) \<Rightarrow> config \<Rightarrow> gparticle \<Rightarrow> draw_op list" where
  "g_draw num_str cfg g =
     (let style = replace_first ''0.6'' (num_str (opacity g)) (particleColor cfg)
      in if shape g = Some ''triangle''
           then [StrokePath style 1 (px g) (py g) (rotation g) (drawTriangle g)]
         else if shape g = Some ''square''
           then [StrokePath style 1 (px g) (py g) (rotation g) (drawSquare g)]
         else if shape g = Some ''hexagon''
           then [StrokePath style 1 (px g) (py g) (rotation g) (drawHexagon g)]
         else [])"

fun draw_any :: "(real \<Rightarrow> string) \<Rightarrow> config \<Rightarrow> any_particle \<Rightarrow> draw_op list" where
  "draw_any num_str cfg (Circle p) = draw num_str cfg p"
| "draw_any num_str cfg (Poly g) = g_draw num_str cfg g"

subsection \<open>\<open>ParticleSystem.drawConnections\<close>\<close>

text \<open>The body of the two loops, for the particles \<open>i\<close> and \<open>j\<close>.\<close>

definition connection :: "(real \<Rightarrow> string) \<Rightarrow> config \<Rightarrow> any_particle \<Rightarrow> any_particle \<Rightarrow> draw_op list option" where
  "connection num_str cfg pa pb =
     (let dx = pos_x pa - pos_x pb;
          dy = pos_y pa - pos_y pb;
          distance = sqrt (dx * dx + dy * dy)
      in if distance < connectionDistance cfg then
           (case js_div (connectionDistance cfg - distance) (connectionDistance cfg) of
              None \<Rightarrow> None
            | Some opac \<Rightarrow>
                Some [StrokeLine
                        (replace_first ''0.2'' (num_str (opac * 0.2)) (connectionColor cfg))
                        1 (pos_x pa) (pos_y pa) (pos_x pb) (pos_y pb)])
         else Some [])"

text \<open>The inner loop: \<open>j\<close> runs over the particles after \<open>i\<close>.\<close>

fun connections_from :: "(real \<Rightarrow> string) \<Rightarrow> config \<Rightarrow> any_particle \<Rightarrow> any_particle list \<Rightarrow> draw_op list option" where
  "connections_from num_str cfg pa [] = Some []"
| "connections_from num_str cfg pa (pb # ps) =
     (case connection num_str cfg pa pb of
        None \<Rightarrow> None
      | Some l \<Rightarrow> map_option ((@) l) (connections_from num_str cfg pa ps))"

text \<open>The outer loop: \<open>i\<close> runs over all particles.\<close>

fun drawConnections :: "(real \<Rightarrow> string) \<Rightarrow> config \<Rightarrow> any_particle list \<Rightarrow> draw_op list option" where
  "drawConnections num_str cfg [] = Some []"
| "drawConnections num_str cfg (pa # ps) =
     (case connections_from num_str cfg pa ps of
        None \<Rightarrow> None
      | Some l \<Rightarrow> map_option ((@) l) (drawConnections num_str cfg ps))"

section \<open>The simulation instance\<close>

text \<open>
  The result of \<open>container.getBoundingClientRect()\<close>, read from the host when the source
  reads it.
\<close>

record rect =
  rleft :: real
  rtop :: real
  rwidth :: real
  rheight :: real

text \<open>
  A \<open>ParticleSystem\<close> (\<open>kind = Plain\<close>) or \<open>GeometricParticleSystem\<close> (\<open>kind = Geometric\<close>),
  on a host that provides the 2D context (the governor creates no instance otherwise).
  \<open>surface\<close> is what is painted on the canvas. \<open>mouseListeners\<close> says that \<open>bindEvents\<close> added
  the two mouse listeners. The last two fields are the host's side of
  \<open>requestAnimationFrame\<close> for this instance: \<open>callbacks\<close> holds the handles of the frame
  requests of this instance that are outstanding (requested, and neither run nor cancelled),
  \<open>lastHandle\<close> the handle given last. Handles are positive; they are numbered per instance
  here, and nothing below depends on more than that.
\<close>

record psystem =
  kind :: system_kind
  canvas :: canvas
  particles :: "any_particle list"
  mouse :: mouse
  animationId :: "nat option"
  config :: config
  surface :: "draw_op list"
  mouseListeners :: bool
  callbacks :: "nat list"
  lastHandle :: nat

text \<open>
  \<open>resizeCanvas\<close>. Assigning \<open>canvas.width\<close> truncates to an unsigned integer and clears the
  canvas. With responsive scaling the particle count is overwritten with the floor of its
  current value times the area ratio.
\<close>

definition resizeCanvas :: "rect \<Rightarrow> psystem \<Rightarrow> psystem" where
  "resizeCanvas r s =
     (let s1 = s\<lparr>canvas := (canvas s)\<lparr>width := nat \<lfloor>rwidth r\<rfloor>, height := nat \<lfloor>rheight r\<rfloor>\<rparr>,
                  surface := []\<rparr>
      in if responsive (config s1) then
           (let screenArea = rwidth r * rheight r;
                baseArea = 1920 * 1080;
                ratio = min (screenArea / baseArea) 1
            in s1\<lparr>config := (config s1)\<lparr>particleCount := js_floor (particleCount (config s1) * ratio)\<rparr>\<rparr>)
         else s1)"

text \<open>\<open>createParticles\<close> of the two classes: the loop body and the loop.\<close>

definition draws :: "system_kind \<Rightarrow> nat" where
  "draws k = (case k of Plain \<Rightarrow> 9 | Geometric \<Rightarrow> 12)"

definition new_any :: "system_kind \<Rightarrow> (nat \<Rightarrow> real) \<Rightarrow> canvas \<Rightarrow> config \<Rightarrow> any_particle" where
  "new_any k r c cfg =
     (case k of Plain \<Rightarrow> Circle (new_Particle r c cfg)
      | Geometric \<Rightarrow> Poly (new_GeometricParticle r c cfg))"

fun spawn :: "system_kind \<Rightarrow> (nat \<Rightarrow> real) \<Rightarrow> canvas \<Rightarrow> config \<Rightarrow> nat \<Rightarrow> any_particle list" where
  "spawn k r c cfg 0 = []"
| "spawn k r c cfg (Suc n) = new_any k r c cfg # spawn k (shift (draws k) r) c cfg n"

definition createParticles :: "(nat \<Rightarrow> real) \<Rightarrow> psystem \<Rightarrow> psystem" where
  "createParticles r s =
     s\<lparr>particles := spawn (kind s) r (canvas s) (config s) (iterations (particleCount (config s)))\<rparr>"

text \<open>
  \<open>animate\<close>: clear, update and draw every particle in turn, draw the connections, request
  the next frame. \<open>None\<close> when a division by zero is executed on the way.
\<close>

fun animate_particles :: "(real \<Rightarrow> string) \<Rightarrow> canvas \<Rightarrow> mouse \<Rightarrow> config \<Rightarrow> any_particle list \<Rightarrow> (any_particle list \<times> draw_op list) option" where
  "animate_particles num_str c m cfg [] = Some ([], [])"
| "animate_particles num_str c m cfg (p # ps) =
     (case update_any c m cfg p of
        None \<Rightarrow> None
      | Some q \<Rightarrow>
          (case animate_particles num_str c m cfg ps of
             None \<Rightarrow> None
           | Some (qs, ds) \<Rightarrow> Some (q # qs, draw_any num_str cfg q @ ds)))"

definition requestAnimationFrame :: "psystem \<Rightarrow> psystem" where
  "requestAnimationFrame s =
     s\<lparr>animationId := Some (Suc (lastHandle s)),
       callbacks := callbacks s @ [Suc (lastHandle s)],
       lastHandle := Suc (lastHandle s)\<rparr>"

definition animate :: "(real \<Rightarrow> string) \<Rightarrow> psystem \<Rightarrow> psystem option" where
  "animate num_str s =
     (case animate_particles num_str (canvas s) (mouse s) (config s) (particles s) of
        None \<Rightarrow> None
      | Some (qs, ds) \<Rightarrow>
          (case drawConnections num_str (config s) qs of
             None \<Rightarrow> None
           | Some ls \<Rightarrow> Some (requestAnimationFrame (s\<lparr>particles := qs, surface := ds @ ls\<rparr>))))"

text \<open>The truth value of \<open>this.animationId\<close>: \<open>null\<close> and \<open>0\<close> are false.\<close>

fun truthy :: "nat option \<Rightarrow> bool" where
  "truthy None = False"
| "truthy (Some h) = (h \<noteq> 0)"

definition cancelAnimationFrame :: "nat option \<Rightarrow> psystem \<Rightarrow> psystem" where
  "cancelAnimationFrame i s = s\<lparr>callbacks := filter (\<lambda>h. Some h \<noteq> i) (callbacks s)\<rparr>"

definition pause :: "psystem \<Rightarrow> psystem" where
  "pause s =
     (if truthy (animationId s) then (cancelAnimationFrame (animationId s) s)\<lparr>animationId := None\<rparr>
      else s)"

definition resume :: "(real \<Rightarrow> string) \<Rightarrow> psystem \<Rightarrow> psystem option" where
  "resume num_str s = (if \<not> truthy (animationId s) then animate num_str s else Some s)"

definition destroy :: "psystem \<Rightarrow> psystem" where
  "destroy s =
     (let s1 = pause s
      in if hasParent (canvas s1) then s1\<lparr>canvas := (canvas s1)\<lparr>hasParent := False\<rparr>\<rparr> else s1)"

text \<open>
  The constructor with \<open>init\<close>: the fields, \<open>createCanvas\<close> (a fresh canvas of the default
  size is appended to the container and resized), \<open>createParticles\<close>, \<open>bindEvents\<close>, \<open>animate\<close>.
\<close>

definition construct :: "system_kind \<Rightarrow> options \<Rightarrow> rect \<Rightarrow> (nat \<Rightarrow> real) \<Rightarrow> (real \<Rightarrow> string) \<Rightarrow> psystem option" where
  "construct k opts r rnd num_str =
     (let s0 = \<lparr> kind = k,
                 canvas = \<lparr>width = 300, height = 150, hasParent = True\<rparr>,
                 particles = [],
                 mouse = \<lparr>mx = 0, my = 0\<rparr>,
                 animationId = None,
                 config = make_config k opts,
                 surface = [],
                 mouseListeners = False,
                 callbacks = [],
                 lastHandle = 0 \<rparr>;
          s1 = resizeCanvas r s0;
          s2 = createParticles rnd s1;
          s3 = s2\<lparr>mouseListeners := mouseInteraction (config s2)\<rparr>
      in animate num_str s3)"

text \<open>The host runs the frame callback of the instance that was requested first.\<close>

definition frame :: "(real \<Rightarrow> string) \<Rightarrow> psystem \<Rightarrow> psystem option" where
  "frame num_str s =
     (case callbacks s of [] \<Rightarrow> Some s | h # hs \<Rightarrow> animate num_str (s\<lparr>callbacks := hs\<rparr>))"

text \<open>The body of the loop of \<open>PerformanceManager.optimizeParticles\<close>, for one system.\<close>

definition optimize :: "(nat \<Rightarrow> real) \<Rightarrow> psystem \<Rightarrow> psystem" where
  "optimize rnd s =
     createParticles rnd
       (s\<lparr>config := (config s)\<lparr>particleCount := js_floor (particleCount (config s) * 0.6)\<rparr>\<rparr>)"

text \<open>
  What can happen to an instance after its creation: a frame tick; the window's \<open>resize\<close>
  listener; the container's \<open>mousemove\<close> (with the event's client coordinates and the
  container's rectangle) and \<open>mouseleave\<close> listeners; the document's \<open>visibilitychange\<close>
  listener (hidden or not); calls of \<open>pause\<close>, \<open>resume\<close> and \<open>destroy\<close>; the governor's
  mitigation.
\<close>

datatype event =
  Frame
| WindowResize rect "nat \<Rightarrow> real"
| MouseMove real real rect
| MouseLeave
| VisibilityChange bool
| Pause
| Resume
| Destroy
| Optimize "nat \<Rightarrow> real"

fun step :: "(real \<Rightarrow> string) \<Rightarrow> event \<Rightarrow> psystem \<Rightarrow> psystem option" where
  "step num_str Frame s = frame num_str s"
| "step num_str (WindowResize r rnd) s = Some (createParticles rnd (resizeCanvas r s))"
| "step num_str (MouseMove clientX clientY r) s =
     Some (if mouseListeners s then s\<lparr>mouse := \<lparr>mx = clientX - rleft r, my = clientY - rtop r\<rparr>\<rparr> else s)"
| "step num_str MouseLeave s =
     Some (if mouseListeners s then s\<lparr>mouse := \<lparr>mx = - 1000, my = - 1000\<rparr>\<rparr> else s)"
| "step num_str (VisibilityChange hidden) s = (if hidden then Some (pause s) else resume num_str s)"
| "step num_str Pause s = Some (pause s)"
| "step num_str Resume s = resume num_str s"
| "step num_str Destroy s = Some (destroy s)"
| "step num_str (Optimize rnd) s = Some (optimize rnd s)"

fun run :: "(real \<Rightarrow> string) \<Rightarrow> event list \<Rightarrow> psystem \<Rightarrow> psystem option" where
  "run num_str [] s = Some s"
| "run num_str (e # es) s = (case step num_str e s of None \<Rightarrow> None | Some s1 \<Rightarrow> run num_str es s1)"

section \<open>The performance governor\<close>

text \<open>
  The registry \<open>ParticleManager.systems\<close> (a map in insertion order) and the state of
  \<open>PerformanceManager\<close> with the two variables of \<open>monitorFrameRate\<close>.
\<close>

record page =
  systems :: "(string \<times> psystem) list"
  isHighPerformance :: bool
  frames :: nat
  lastTime :: real

fun optimize_systems :: "(nat \<Rightarrow> real) \<Rightarrow> (string \<times> psystem) list \<Rightarrow> (string \<times> psystem) list" where
  "optimize_systems rnd [] = []"
| "optimize_systems rnd ((k, s) # rest) =
     (k, optimize rnd s)
       # optimize_systems (shift (length (particles (optimize rnd s)) * draws (kind s)) rnd) rest"

definition optimizeParticles :: "(nat \<Rightarrow> real) \<Rightarrow> page \<Rightarrow> page" where
  "optimizeParticles rnd pg = pg\<lparr>systems := optimize_systems rnd (systems pg)\<rparr>"

text \<open>One run of \<open>checkFrameRate\<close>, at the time \<open>performance.now()\<close> returns.\<close>

definition checkFrameRate :: "real \<Rightarrow> (nat \<Rightarrow> real) \<Rightarrow> page \<Rightarrow> page" where
  "checkFrameRate currentTime rnd pg =
     (let pg1 = pg\<lparr>frames := frames pg + 1\<rparr>
      in if currentTime - lastTime pg1 \<ge> 1000 then
           (let fps = frames pg1;
                pg2 = pg1\<lparr>frames := 0, lastTime := currentTime\<rparr>
            in if fps < 30 \<and> isHighPerformance pg2
               then optimizeParticles rnd (pg2\<lparr>isHighPerformance := False\<rparr>)
               else pg2)
         else pg1)"

text \<open>
  \<open>detectPerformance\<close>, from what the host reports: whether a 2D context is available,
  \<open>window.innerWidth\<close>, \<open>navigator.deviceMemory\<close> and
  \<open>navigator.connection.effectiveType\<close> where the host has them.
\<close>

definition detectPerformance :: "bool \<Rightarrow> real \<Rightarrow> real option \<Rightarrow> string option \<Rightarrow> page \<Rightarrow> page" where
  "detectPerformance ctx innerWidth deviceMemory effectiveType pg =
     (if \<not> ctx \<or> innerWidth < 768 then pg\<lparr>isHighPerformance := False\<rparr>
      else
        (let pg1 = (if (case deviceMemory of None \<Rightarrow> False | Some d \<Rightarrow> d \<noteq> 0 \<and> d < 4)
                    then pg\<lparr>isHighPerformance := False\<rparr> else pg)
         in if effectiveType = Some ''slow-2g'' then pg1\<lparr>isHighPerformance := False\<rparr> else pg1))"

text \<open>
  What can happen to the page: a frame tick of the governor, a run of \<open>detectPerformance\<close>,
  and anything that happens to the registry and its instances apart from the governor
  (their own events, filling and emptying the registry), which leaves some registry content.
\<close>

datatype page_event =
  Tick real "nat \<Rightarrow> real"
| Detect bool real "real option" "string option"
| Instances "(string \<times> psystem) list"

fun page_step :: "page_event \<Rightarrow> page \<Rightarrow> page" where
  "page_step (Tick t rnd) pg = checkFrameRate t rnd pg"
| "page_step (Detect ctx w dm et) pg = detectPerformance ctx w dm et pg"
| "page_step (Instances xs) pg = pg\<lparr>systems := xs\<rparr>"

fun page_run :: "page_event list \<Rightarrow> page \<Rightarrow> page" where
  "page_run [] pg = pg"
| "page_run (e # es) pg = page_run es (page_step e pg)"

section \<open>Properties of states and events used below\<close>

text \<open>
  The frame handle and the host's outstanding requests agree: no handle and no request,
  or a positive handle and exactly the request it names.
\<close>

definition frame_inv :: "psystem \<Rightarrow> bool" where
  "frame_inv s =
     (case animationId s of None \<Rightarrow> callbacks s = [] | Some h \<Rightarrow> h \<noteq> 0 \<and> callbacks s = [h])"

text \<open>The events that write \<open>config.particleCount\<close>.\<close>

fun rescales :: "event \<Rightarrow> bool" where
  "rescales (WindowResize r rnd) = True"
| "rescales (Optimize rnd) = True"
| "rescales e = False"

text \<open>The events that write the pointer state.\<close>

fun pointer_event :: "event \<Rightarrow> bool" where
  "pointer_event (MouseMove clientX clientY r) = True"
| "pointer_event MouseLeave = True"
| "pointer_event e = False"

section \<open>Concrete configurations and inputs\<close>

text \<open>The options \<open>ParticleManager.initHeroParticles\<close> passes, for a given \<open>window.innerWidth\<close>.\<close>

definition hero_options :: "real \<Rightarrow> options" where
  "hero_options innerWidth =
     \<lparr> optParticleCount = Some (if innerWidth > 768 then 60 else 30),
       optParticleSize = Some 3,
       optParticleSpeed = Some 0.3,
       optConnectionDistance = Some 120,
       optParticleColor = Some ''rgba(46, 204, 113, 0.8)'',
       optConnectionColor = Some ''rgba(46, 204, 113, 0.15)'',
       optMouseInteraction = None,
       optMouseRadius = Some 120,
       optResponsive = None,
       optShapes = None,
       optRotationSpeed = None \<rparr>"

definition hero_config :: config where
  "hero_config = make_config Plain (hero_options 1920)"

text \<open>A call \<open>new ParticleSystem(container)\<close> without options.\<close>

definition no_options :: options where
  "no_options =
     \<lparr> optParticleCount = None, optParticleSize = None, optParticleSpeed = None,
       optConnectionDistance = None, optParticleColor = None, optConnectionColor = None,
       optMouseInteraction = None, optMouseRadius = None, optResponsive = None,
       optShapes = None, optRotationSpeed = None \<rparr>"

definition bounds :: "real \<Rightarrow> real \<Rightarrow> rect" where
  "bounds w h = \<lparr>rleft = 0, rtop = 0, rwidth = w, rheight = h\<rparr>"

definition half_random :: "nat \<Rightarrow> real" where
  "half_random i = 1 / 2"

definition fixed_str :: "real \<Rightarrow> string" where
  "fixed_str v = ''0.5''"

definition still_particle :: "real \<Rightarrow> real \<Rightarrow> particle" where
  "still_particle x0 y0 =
     \<lparr> px = x0, py = y0, originalX = x0, originalY = y0, vx = 0, vy = 0,
       psize = 2, opacity = 3 / 4, angle = pi - 1 / 50, amplitude = 20, frequency = 1 / 50 \<rparr>"

text \<open>A running hero instance in a 960 by 540 container, with two particles left.\<close>

definition sample_system :: psystem where
  "sample_system =
     \<lparr> kind = Plain,
       canvas = \<lparr>width = 960, height = 540, hasParent = True\<rparr>,
       particles = [Circle (still_particle 100 100), Circle (still_particle 130 140)],
       mouse = \<lparr>mx = - 1000, my = - 1000\<rparr>,
       animationId = Some 1,
       config = hero_config\<lparr>particleCount := 2\<rparr>,
       surface = [],
       mouseListeners = True,
       callbacks = [1],
       lastHandle = 1 \<rparr>"

definition sample_page :: page where
  "sample_page =
     \<lparr> systems = [(''hero-0'', sample_system)], isHighPerformance = True, frames = 19, lastTime = 0 \<rparr>"

section \<open>The wrap invariant\<close>

lemma move_in_bounds:
  "0 \<le> px (move c p) \<and> px (move c p) \<le> real (width c) \<and>
   0 \<le> py (move c p) \<and> py (move c p) \<le> real (height c)"
  by (simp add: move_def Let_def)

lemma repel_position: "repel m cfg p = Some q \<Longrightarrow> px q = px p \<and> py q = py p"
  by (auto simp: repel_def Let_def split: if_splits option.splits)

lemma sqrt_sum_squares_nonneg: "0 \<le> sqrt (a * a + b * b)"
  by simp

lemma repel_total: "\<exists>q. repel m cfg p = Some q"
proof (cases "mouseInteraction cfg \<and> mx m > - 500 \<and>
    sqrt ((mx m - px p) * (mx m - px p) + (my m - py p) * (my m - py p)) < mouseRadius cfg")
  case True
  have "0 \<le> sqrt ((mx m - px p) * (mx m - px p) + (my m - py p) * (my m - py p))"
    by (rule sqrt_sum_squares_nonneg)
  with True have "mouseRadius cfg \<noteq> 0" by linarith
  with True show ?thesis by (simp add: repel_def Let_def js_div_def)
next
  case False
  then show ?thesis by (auto simp: repel_def Let_def)
qed

lemma update_total: "\<exists>q. update c m cfg p = Some q"
  using repel_total [of m cfg "move c p"] by (auto simp: update_def)

lemma update_in_bounds:
  assumes "update c m cfg p = Some q"
  shows "0 \<le> px q \<and> px q \<le> real (width c) \<and> 0 \<le> py q \<and> py q \<le> real (height c)"
proof -
  from assms obtain q1 where r: "repel m cfg (move c p) = Some q1" and q: "q = settle q1"
    by (auto simp: update_def)
  from repel_position [OF r] have "px q1 = px (move c p)" "py q1 = py (move c p)" by simp_all
  moreover have "px q = px q1" "py q = py q1" by (simp_all add: q settle_def Let_def)
  ultimately show ?thesis using move_in_bounds [of c p] by simp
qed

lemma update_any_total: "\<exists>q. update_any c m cfg p = Some q"
proof (cases p)
  case (Circle a)
  then show ?thesis using update_total [of c m cfg a] by auto
next
  case (Poly g)
  then show ?thesis using update_total [of c m cfg g] by (auto simp: g_update_def)
qed

lemma update_any_in_bounds:
  assumes "update_any c m cfg p = Some q"
  shows "0 \<le> pos_x q \<and> pos_x q \<le> real (width c) \<and> 0 \<le> pos_y q \<and> pos_y q \<le> real (height c)"
proof (cases p)
  case (Circle a)
  with assms obtain b where "update c m cfg a = Some b" "q = Circle b" by auto
  then show ?thesis using update_in_bounds [of c m cfg a b] by simp
next
  case (Poly g)
  with assms obtain h where "update c m cfg g = Some h"
    "q = Poly (h\<lparr>rotation := rotation h + rotationSpeed h\<rparr>)"
    by (auto simp: g_update_def)
  then show ?thesis using update_in_bounds [of c m cfg g h] by simp
qed

text \<open>
  Claim C3. For every particle, plain or shape variant, every prior position and velocity,
  every canvas, pointer and configuration, \<open>update\<close> returns, and the position it
  leaves lies within \<open>[0, width] \<times> [0, height]\<close> of the canvas.
\<close>

theorem C3_update_within_bounds:
  "\<exists>q. update_any c m cfg p = Some q \<and>
       0 \<le> pos_x q \<and> pos_x q \<le> real (width c) \<and> 0 \<le> pos_y q \<and> pos_y q \<le> real (height c)"
  using update_any_total [of c m cfg p] update_any_in_bounds [of c m cfg p] by blast

section \<open>No division by zero\<close>

lemma connection_total: "\<exists>l. connection num_str cfg a b = Some l"
proof (cases "sqrt ((pos_x a - pos_x b) * (pos_x a - pos_x b) + (pos_y a - pos_y b) * (pos_y a - pos_y b))
    < connectionDistance cfg")
  case True
  have "0 \<le> sqrt ((pos_x a - pos_x b) * (pos_x a - pos_x b) + (pos_y a - pos_y b) * (pos_y a - pos_y b))"
    by (rule sqrt_sum_squares_nonneg)
  with True have "connectionDistance cfg \<noteq> 0" by linarith
  with True show ?thesis by (simp add: connection_def Let_def js_div_def)
next
  case False
  then show ?thesis by (simp add: connection_def Let_def)
qed

lemma connections_from_total: "\<exists>l. connections_from num_str cfg a ps = Some l"
proof (induction ps)
  case Nil
  show ?case by simp
next
  case (Cons b ps)
  from connection_total [of num_str cfg a b] obtain l where "connection num_str cfg a b = Some l" ..
  with Cons show ?case by auto
qed

lemma drawConnections_total: "\<exists>l. drawConnections num_str cfg ps = Some l"
proof (induction ps)
  case Nil
  show ?case by simp
next
  case (Cons a ps)
  from connections_from_total [of num_str cfg a ps] obtain l where "connections_from num_str cfg a ps = Some l" ..
  with Cons show ?case by auto
qed

lemma animate_particles_total:
  "\<exists>qs ds. animate_particles num_str c m cfg ps = Some (qs, ds)"
proof (induction ps)
  case Nil
  show ?case by simp
next
  case (Cons p ps)
  from update_any_total [of c m cfg p] obtain q where "update_any c m cfg p = Some q" ..
  with Cons show ?case by auto
qed

lemma animate_total: "\<exists>s1. animate num_str s = Some s1"
proof -
  obtain qs ds where a: "animate_particles num_str (canvas s) (mouse s) (config s) (particles s) = Some (qs, ds)"
    using animate_particles_total by blast
  obtain ls where "drawConnections num_str (config s) qs = Some ls"
    using drawConnections_total by blast
  with a show ?thesis by (simp add: animate_def)
qed

lemma step_total: "\<exists>s1. step num_str e s = Some s1"
  by (cases e) (auto simp: frame_def resume_def animate_total split: list.splits)

lemma run_total: "\<exists>s1. run num_str es s = Some s1"
proof (induction es arbitrary: s)
  case Nil
  show ?case by simp
next
  case (Cons e es)
  from step_total [of num_str e s] obtain s1 where "step num_str e s = Some s1" ..
  with Cons [of s1] show ?case by simp
qed

lemma construct_total: "\<exists>s. construct k opts r rnd num_str = Some s"
  by (simp add: construct_def Let_def animate_total)

section \<open>Frame requests\<close>

lemma animate_requests:
  assumes "animate num_str s = Some s1"
  shows "animationId s1 = Some (Suc (lastHandle s)) \<and> callbacks s1 = callbacks s @ [Suc (lastHandle s)]"
  using assms by (auto simp: animate_def requestAnimationFrame_def split: option.splits prod.splits)

lemma animate_frame_inv:
  assumes "animate num_str s = Some s1" and "callbacks s = []"
  shows "frame_inv s1 \<and> length (callbacks s1) = 1"
  using animate_requests [OF assms(1)] assms(2) by (simp add: frame_inv_def)

lemma pause_callbacks: "frame_inv s \<Longrightarrow> callbacks (pause s) = [] \<and> animationId (pause s) = None"
  by (cases "animationId s") (simp_all add: frame_inv_def pause_def cancelAnimationFrame_def)

lemma pause_frame_inv: "frame_inv s \<Longrightarrow> frame_inv (pause s)"
  using pause_callbacks [of s] by (simp add: frame_inv_def)

lemma pause_idem: "frame_inv s \<Longrightarrow> pause (pause s) = pause s"
  using pause_callbacks [of s] by (simp add: pause_def [of "pause s"])

lemma pause_funpow: "frame_inv s \<Longrightarrow> (pause ^^ Suc n) s = pause s"
  by (induction n) (simp_all add: pause_idem)

lemma resume_frame_inv:
  assumes "frame_inv s" and "resume num_str s = Some s1"
  shows "frame_inv s1 \<and> length (callbacks s1) = 1 \<and> truthy (animationId s1)"
proof (cases "animationId s")
  case None
  with assms(1) have c: "callbacks s = []" by (simp add: frame_inv_def)
  from None assms(2) have a: "animate num_str s = Some s1" by (simp add: resume_def)
  from animate_frame_inv [OF a c] animate_requests [OF a] show ?thesis by simp
next
  case (Some h)
  with assms show ?thesis by (simp add: frame_inv_def resume_def)
qed

lemma resume_idem:
  assumes "frame_inv s" and "resume num_str s = Some s1"
  shows "resume num_str s1 = Some s1"
  using resume_frame_inv [OF assms] by (simp add: resume_def)

lemma frame_inv_cong:
  "animationId s1 = animationId s \<Longrightarrow> callbacks s1 = callbacks s \<Longrightarrow> frame_inv s1 = frame_inv s"
  by (simp add: frame_inv_def split: option.splits)

lemma destroy_frame_inv: "frame_inv s \<Longrightarrow> frame_inv (destroy s)"
  using pause_frame_inv [of s] frame_inv_cong [of "destroy s" "pause s"]
  by (simp add: destroy_def Let_def)

lemma frame_frame_inv:
  assumes "frame_inv s" and "frame num_str s = Some s1"
  shows "frame_inv s1"
proof (cases "callbacks s")
  case Nil
  with assms show ?thesis by (simp add: frame_def)
next
  case (Cons h hs)
  with assms(1) have hs: "hs = []" by (cases "animationId s") (simp_all add: frame_inv_def)
  from Cons assms(2) have a: "animate num_str (s\<lparr>callbacks := hs\<rparr>) = Some s1" by (simp add: frame_def)
  from animate_frame_inv [OF a] hs show ?thesis by simp
qed

lemma rebuild_frame_inv:
  "frame_inv (createParticles rnd s) = frame_inv s"
  "frame_inv (resizeCanvas r s) = frame_inv s"
  "frame_inv (optimize rnd s) = frame_inv s"
  by (rule frame_inv_cong; simp add: createParticles_def resizeCanvas_def optimize_def Let_def)+

lemma step_frame_inv:
  assumes "frame_inv s" and "step num_str e s = Some s1"
  shows "frame_inv s1"
proof (cases e)
  case Frame
  with assms show ?thesis using frame_frame_inv by simp
next
  case (WindowResize r rnd)
  with assms show ?thesis by (auto simp: rebuild_frame_inv)
next
  case (MouseMove cx cy r)
  with assms show ?thesis
    using frame_inv_cong [of "s\<lparr>mouse := \<lparr>mx = cx - rleft r, my = cy - rtop r\<rparr>\<rparr>" s]
    by (auto split: if_splits)
next
  case MouseLeave
  with assms show ?thesis
    using frame_inv_cong [of "s\<lparr>mouse := \<lparr>mx = - 1000, my = - 1000\<rparr>\<rparr>" s]
    by (auto split: if_splits)
next
  case (VisibilityChange hidden)
  with assms show ?thesis using pause_frame_inv resume_frame_inv by (auto split: if_splits)
next
  case Pause
  with assms show ?thesis using pause_frame_inv by auto
next
  case Resume
  with assms show ?thesis using resume_frame_inv by auto
next
  case Destroy
  with assms show ?thesis using destroy_frame_inv by auto
next
  case (Optimize rnd)
  with assms show ?thesis by (auto simp: rebuild_frame_inv)
qed

lemma run_frame_inv:
  "frame_inv s \<Longrightarrow> run num_str es s = Some s1 \<Longrightarrow> frame_inv s1"
proof (induction es arbitrary: s)
  case Nil
  then show ?case by simp
next
  case (Cons e es)
  from Cons.prems(2) obtain s2 where e: "step num_str e s = Some s2" and r: "run num_str es s2 = Some s1"
    by (auto split: option.splits)
  from step_frame_inv [OF Cons.prems(1) e] have "frame_inv s2" .
  from Cons.IH [OF this r] show ?case .
qed

lemma construct_frame_inv:
  assumes "construct k opts r rnd num_str = Some s"
  shows "frame_inv s \<and> length (callbacks s) = 1"
proof -
  from assms obtain s3 where a: "animate num_str s3 = Some s" and c: "callbacks s3 = []"
    by (auto simp: construct_def Let_def createParticles_def resizeCanvas_def)
  from animate_frame_inv [OF a c] show ?thesis .
qed

lemma frame_inv_length: "frame_inv s \<Longrightarrow> length (callbacks s) = (if truthy (animationId s) then 1 else 0)"
  by (cases "animationId s") (simp_all add: frame_inv_def)

text \<open>
  Claim C7. For every instance, however created and whatever events it has seen since:
  the constructor leaves exactly one frame request outstanding; at most one request is
  outstanding at any time; after \<open>pause\<close>, called once or any number of further times, none
  is outstanding, and a second \<open>pause\<close> changes nothing; \<open>resume\<close> after \<open>pause\<close> (and
  \<open>resume\<close> in any state) leaves exactly one outstanding, and a second \<open>resume\<close> changes
  nothing.
\<close>

theorem C7_one_frame_request:
  "\<exists>s0 s s1. construct k opts r rnd num_str = Some s0 \<and> length (callbacks s0) = 1 \<and>
     run num_str es s0 = Some s \<and> length (callbacks s) \<le> 1 \<and>
     callbacks (pause s) = [] \<and> (\<forall>n. callbacks ((pause ^^ Suc n) s) = []) \<and>
     pause (pause s) = pause s \<and>
     resume num_str (pause s) = Some s1 \<and> length (callbacks s1) = 1 \<and>
     resume num_str s1 = Some s1 \<and>
     (\<exists>s2. resume num_str s = Some s2 \<and> length (callbacks s2) = 1 \<and> resume num_str s2 = Some s2)"
proof -
  obtain s0 where s0: "construct k opts r rnd num_str = Some s0" using construct_total by blast
  obtain s where s: "run num_str es s0 = Some s" using run_total by blast
  have i0: "frame_inv s0" "length (callbacks s0) = 1" using construct_frame_inv [OF s0] by simp_all
  have i: "frame_inv s" using run_frame_inv [OF i0(1) s] .
  obtain s1 where s1: "resume num_str (pause s) = Some s1" using step_total [of num_str Resume] by auto
  obtain s2 where s2: "resume num_str s = Some s2" using step_total [of num_str Resume] by auto
  have "length (callbacks s) \<le> 1" using frame_inv_length [OF i] by simp
  moreover have "callbacks (pause s) = []" using pause_callbacks [OF i] by simp
  moreover have "\<forall>n. callbacks ((pause ^^ Suc n) s) = []"
    using pause_funpow [OF i] pause_callbacks [OF i] by simp
  moreover have "pause (pause s) = pause s" using pause_idem [OF i] .
  moreover have "length (callbacks s1) = 1" "resume num_str s1 = Some s1"
    using resume_frame_inv [OF pause_frame_inv [OF i] s1] resume_idem [OF pause_frame_inv [OF i] s1] by simp_all
  moreover have "length (callbacks s2) = 1" "resume num_str s2 = Some s2"
    using resume_frame_inv [OF i s2] resume_idem [OF i s2] by simp_all
  ultimately show ?thesis using s0 s s1 s2 i0(2) by blast
qed

section \<open>What each operation writes\<close>

lemma length_spawn: "length (spawn k r c cfg n) = n"
  by (induction n arbitrary: r) simp_all

lemma animate_particles_length:
  "animate_particles num_str c m cfg ps = Some (qs, ds) \<Longrightarrow> length qs = length ps"
  by (induction ps arbitrary: qs ds) (auto split: option.splits)

lemma animate_keeps:
  assumes "animate num_str s = Some s1"
  shows "config s1 = config s" and "canvas s1 = canvas s" and "mouse s1 = mouse s"
    and "kind s1 = kind s" and "mouseListeners s1 = mouseListeners s"
    and "length (particles s1) = length (particles s)"
  using assms animate_particles_length
  by (auto simp: animate_def requestAnimationFrame_def split: option.splits prod.splits)

lemma resizeCanvas_config:
  "config (resizeCanvas r s) =
     (if responsive (config s)
      then (config s)\<lparr>particleCount :=
             js_floor (particleCount (config s) * min (rwidth r * rheight r / (1920 * 1080)) 1)\<rparr>
      else config s)"
  by (simp add: resizeCanvas_def Let_def)

lemma resizeCanvas_keeps:
  "mouse (resizeCanvas r s) = mouse s" "kind (resizeCanvas r s) = kind s"
  "animationId (resizeCanvas r s) = animationId s" "callbacks (resizeCanvas r s) = callbacks s"
  "hasParent (canvas (resizeCanvas r s)) = hasParent (canvas s)"
  "mouseListeners (resizeCanvas r s) = mouseListeners s"
  by (simp_all add: resizeCanvas_def Let_def)

lemma createParticles_keeps:
  "config (createParticles rnd s) = config s" "canvas (createParticles rnd s) = canvas s"
  "mouse (createParticles rnd s) = mouse s" "kind (createParticles rnd s) = kind s"
  "animationId (createParticles rnd s) = animationId s"
  "callbacks (createParticles rnd s) = callbacks s"
  "mouseListeners (createParticles rnd s) = mouseListeners s"
  by (simp_all add: createParticles_def)

lemma createParticles_particles:
  "particles (createParticles rnd s) =
     spawn (kind s) rnd (canvas s) (config s) (iterations (particleCount (config s)))"
  by (simp add: createParticles_def)

lemma optimize_config:
  "config (optimize rnd s) = (config s)\<lparr>particleCount := js_floor (particleCount (config s) * 0.6)\<rparr>"
  by (simp add: optimize_def createParticles_def)

lemma optimize_keeps:
  "mouse (optimize rnd s) = mouse s" "canvas (optimize rnd s) = canvas s"
  by (simp_all add: optimize_def createParticles_def)

lemma iterations_floor: "iterations (js_floor v) = nat \<lfloor>v\<rfloor>"
  by (simp add: iterations_def js_floor_def)

lemma optimize_particles:
  "length (particles (optimize rnd s)) = nat \<lfloor>particleCount (config s) * 0.6\<rfloor>"
  by (simp add: optimize_def createParticles_def length_spawn iterations_floor)

lemma pause_keeps:
  "config (pause s) = config s" "canvas (pause s) = canvas s" "mouse (pause s) = mouse s"
  "particles (pause s) = particles s" "kind (pause s) = kind s"
  by (simp_all add: pause_def cancelAnimationFrame_def)

lemma pause_not_truthy: "\<not> truthy (animationId (pause s))"
  by (simp add: pause_def)

lemma pause_pause: "pause (pause s) = pause s"
  using pause_not_truthy [of s] by (simp add: pause_def [of "pause s"])

lemma destroy_keeps:
  "config (destroy s) = config s" "mouse (destroy s) = mouse s"
  "particles (destroy s) = particles s" "kind (destroy s) = kind s"
  "animationId (destroy s) = animationId (pause s)" "callbacks (destroy s) = callbacks (pause s)"
  "\<not> hasParent (canvas (destroy s))"
  by (simp_all add: destroy_def Let_def pause_keeps)

lemma destroy_destroy: "destroy (destroy s) = destroy s"
proof -
  have "\<not> truthy (animationId (destroy s))"
    using pause_not_truthy [of s] by (simp add: destroy_keeps)
  then have "pause (destroy s) = destroy s" by (simp add: pause_def)
  then show ?thesis using destroy_keeps(7) [of s] by (simp add: destroy_def [of "destroy s"] Let_def)
qed

lemma construct_config:
  assumes "construct k opts r rnd num_str = Some s"
  shows "config s =
     (if responsive (make_config k opts)
      then (make_config k opts)\<lparr>particleCount :=
             js_floor (particleCount (make_config k opts) * min (rwidth r * rheight r / (1920 * 1080)) 1)\<rparr>
      else make_config k opts)"
    and "length (particles s) = iterations (particleCount (config s))"
    and "mouse s = \<lparr>mx = 0, my = 0\<rparr>"
proof -
  let ?s0 = "\<lparr> kind = k, canvas = \<lparr>width = 300, height = 150, hasParent = True\<rparr>,
                 particles = [], mouse = \<lparr>mx = 0, my = 0\<rparr>, animationId = None,
                 config = make_config k opts, surface = [], mouseListeners = False,
                 callbacks = [], lastHandle = 0 \<rparr>"
  let ?s2 = "createParticles rnd (resizeCanvas r ?s0)"
  let ?s3 = "?s2\<lparr>mouseListeners := mouseInteraction (config ?s2)\<rparr>"
  from assms have a: "animate num_str ?s3 = Some s" by (simp add: construct_def Let_def)
  have c: "config ?s3 = config (resizeCanvas r ?s0)" by (simp add: createParticles_keeps)
  from animate_keeps(1) [OF a] c show "config s =
     (if responsive (make_config k opts)
      then (make_config k opts)\<lparr>particleCount :=
             js_floor (particleCount (make_config k opts) * min (rwidth r * rheight r / (1920 * 1080)) 1)\<rparr>
      else make_config k opts)"
    by (simp add: resizeCanvas_config)
  have "length (particles ?s3) = iterations (particleCount (config ?s3))"
    by (simp add: createParticles_particles length_spawn createParticles_keeps)
  with animate_keeps(1,6) [OF a] show "length (particles s) = iterations (particleCount (config s))"
    by simp
  have "mouse ?s3 = \<lparr>mx = 0, my = 0\<rparr>" by (simp add: createParticles_keeps resizeCanvas_keeps)
  with animate_keeps(3) [OF a] show "mouse s = \<lparr>mx = 0, my = 0\<rparr>" by simp
qed

lemma step_config:
  assumes "step num_str e s = Some s1"
  shows "(config s1)\<lparr>particleCount := particleCount (config s)\<rparr> = config s"
    and "\<not> rescales e \<Longrightarrow> config s1 = config s"
proof -
  show "(config s1)\<lparr>particleCount := particleCount (config s)\<rparr> = config s"
    using assms
    by (cases e)
       (auto simp: frame_def resume_def animate_keeps pause_keeps destroy_keeps optimize_config
          createParticles_keeps resizeCanvas_config split: list.splits if_splits)
  show "config s1 = config s" if "\<not> rescales e"
    using assms that
    by (cases e)
       (auto simp: frame_def resume_def animate_keeps pause_keeps destroy_keeps
          split: list.splits if_splits)
qed

lemma run_config:
  assumes "run num_str es s = Some s1"
  shows "(config s1)\<lparr>particleCount := particleCount (config s)\<rparr> = config s \<and>
         (\<not> list_ex rescales es \<longrightarrow> config s1 = config s)"
  using assms
proof (induction es arbitrary: s)
  case Nil
  then show ?case by simp
next
  case (Cons e es)
  from Cons.prems obtain s2 where e: "step num_str e s = Some s2" and r: "run num_str es s2 = Some s1"
    by (auto split: option.splits)
  from Cons.IH [OF r] have ih: "(config s1)\<lparr>particleCount := particleCount (config s2)\<rparr> = config s2"
    "\<not> list_ex rescales es \<longrightarrow> config s1 = config s2" by simp_all
  from step_config [OF e] have st: "(config s2)\<lparr>particleCount := particleCount (config s)\<rparr> = config s"
    "\<not> rescales e \<Longrightarrow> config s2 = config s" by simp_all
  have "(config s1)\<lparr>particleCount := particleCount (config s)\<rparr> =
        ((config s1)\<lparr>particleCount := particleCount (config s2)\<rparr>)\<lparr>particleCount := particleCount (config s)\<rparr>"
    by simp
  also have "\<dots> = config s" using ih(1) st(1) by simp
  finally have "(config s1)\<lparr>particleCount := particleCount (config s)\<rparr> = config s" .
  moreover have "\<not> list_ex rescales (e # es) \<longrightarrow> config s1 = config s"
    using ih(2) st(2) by simp
  ultimately show ?case by simp
qed

section \<open>Responsive resize\<close>

lemma hero_config_simps:
  "particleCount (make_config Plain (hero_options 1920)) = 60"
  "responsive (make_config Plain (hero_options 1920))"
  by (simp_all add: make_config_def hero_options_def or_default_def)

lemma resize_event_count:
  assumes "responsive (config s)"
  shows "\<exists>s1. step num_str (WindowResize r rnd) s = Some s1 \<and> responsive (config s1) \<and>
     particleCount (config s1) =
       js_floor (particleCount (config s) * min (rwidth r * rheight r / (1920 * 1080)) 1) \<and>
     length (particles s1) = iterations (particleCount (config s1))"
  using assms
  by (simp add: createParticles_keeps createParticles_particles length_spawn resizeCanvas_config)

lemma quarter_area: "min (rwidth (bounds 960 540) * rheight (bounds 960 540) / (1920 * 1080)) 1 = 1 / 4"
  by (simp add: bounds_def)

lemma quarter_area':
  "min (rwidth (bounds 960 540) * rheight (bounds 960 540) / 2073600) 1 = 1 / 4"
  by (simp add: bounds_def)

lemma full_area':
  "min (rwidth (bounds 1920 1080) * rheight (bounds 1920 1080) / 2073600) 1 = 1"
  by (simp add: bounds_def)

lemma full_area: "min (rwidth (bounds 1920 1080) * rheight (bounds 1920 1080) / (1920 * 1080)) 1 = 1"
  by (simp add: bounds_def)

text \<open>
  Claim C1 (the code differs). \<open>resize\<close> scales the current particle count, which the
  constructor and every earlier resize have already scaled, not the count configured at
  creation. A hero instance with base count 60 created in a 1920 by 1080 container has 60
  particles; resized to 960 by 540 it has 15, as the claim says; a second resize event at
  the same 960 by 540 leaves 3 where the claim says 15, and a resize back to 1920 by 1080
  leaves 3 where the claim says 60.
\<close>

theorem C1_resize_scales_current_count:
  "\<exists>s s1 s2 s3.
     construct Plain (hero_options 1920) (bounds 1920 1080) rnd num_str = Some s \<and>
     particleCount (config s) = 60 \<and>
     step num_str (WindowResize (bounds 960 540) rnd1) s = Some s1 \<and>
     particleCount (config s1) = 15 \<and>
     step num_str (WindowResize (bounds 960 540) rnd2) s1 = Some s2 \<and>
     particleCount (config s2) = 3 \<and>
     step num_str (WindowResize (bounds 1920 1080) rnd3) s2 = Some s3 \<and>
     particleCount (config s3) = 3"
proof -
  obtain s where s: "construct Plain (hero_options 1920) (bounds 1920 1080) rnd num_str = Some s"
    using construct_total by blast
  from construct_config(1) [OF s] have c: "particleCount (config s) = 60" "responsive (config s)"
    by (simp_all add: hero_config_simps full_area full_area' js_floor_def)
  from resize_event_count [OF c(2), of num_str "bounds 960 540" rnd1]
  obtain s1 where s1: "step num_str (WindowResize (bounds 960 540) rnd1) s = Some s1"
    "responsive (config s1)" "particleCount (config s1) = 15"
    by (auto simp: c(1) quarter_area quarter_area' js_floor_def)
  from resize_event_count [OF s1(2), of num_str "bounds 960 540" rnd2]
  obtain s2 where s2: "step num_str (WindowResize (bounds 960 540) rnd2) s1 = Some s2"
    "responsive (config s2)" "particleCount (config s2) = 3"
    by (auto simp: s1(3) quarter_area quarter_area' js_floor_def)
  from resize_event_count [OF s2(2), of num_str "bounds 1920 1080" rnd3]
  obtain s3 where s3: "step num_str (WindowResize (bounds 1920 1080) rnd3) s2 = Some s3"
    "particleCount (config s3) = 3"
    by (auto simp: s2(3) full_area full_area' js_floor_def)
  from s c(1) s1(1,3) s2(1,3) s3 show ?thesis by blast
qed

section \<open>The configuration after creation\<close>

text \<open>
  Claim C5 as stated fails: a resize event changes the particle count of the
  configuration of a hero instance from 60 to 15.
\<close>

theorem C5_counterexample:
  "\<exists>s s1. construct Plain (hero_options 1920) (bounds 1920 1080) half_random fixed_str = Some s \<and>
     step fixed_str (WindowResize (bounds 960 540) half_random) s = Some s1 \<and>
     particleCount (config s) = 60 \<and> particleCount (config s1) = 15 \<and> config s1 \<noteq> config s"
proof -
  obtain s where s: "construct Plain (hero_options 1920) (bounds 1920 1080) half_random fixed_str = Some s"
    using construct_total by blast
  from construct_config(1) [OF s] have c: "particleCount (config s) = 60" "responsive (config s)"
    by (simp_all add: hero_config_simps full_area full_area' js_floor_def)
  from resize_event_count [OF c(2), of fixed_str "bounds 960 540" half_random]
  obtain s1 where s1: "step fixed_str (WindowResize (bounds 960 540) half_random) s = Some s1"
    "particleCount (config s1) = 15"
    by (auto simp: c(1) quarter_area quarter_area' js_floor_def)
  have "config s1 \<noteq> config s" using c(1) s1(2) by auto
  with s s1 c(1) show ?thesis by blast
qed

text \<open>
  Claim C5, amended. After creation, every sequence of events (frame ticks, resizes,
  pointer events, visibility changes, pause, resume, destroy, governor mitigation) runs
  to the end and leaves every configuration field other than the particle count as it
  was; a sequence without a resize and without a governor mitigation leaves the whole
  configuration, particle count included, as it was.
\<close>

theorem C5_config_except_count:
  "\<exists>s1. run num_str es s = Some s1 \<and>
     (config s1)\<lparr>particleCount := particleCount (config s)\<rparr> = config s \<and>
     (\<not> list_ex rescales es \<longrightarrow> config s1 = config s)"
proof -
  obtain s1 where r: "run num_str es s = Some s1" using run_total by blast
  from run_config [OF r] r show ?thesis by blast
qed

theorem C5_config_except_count_witness:
  "\<exists>s1. run fixed_str [Frame, MouseLeave, Pause, Resume, Destroy] sample_system = Some s1 \<and>
     config s1 = config sample_system"
proof -
  have "\<not> list_ex rescales [Frame, MouseLeave, Pause, Resume, Destroy]" by simp
  with C5_config_except_count [of fixed_str "[Frame, MouseLeave, Pause, Resume, Destroy]" sample_system]
  show ?thesis by blast
qed

section \<open>Resize and destroy after destroy\<close>

text \<open>
  Claim C9 as stated fails: on a destroyed hero instance a resize event changes the
  particle count of the configuration from 60 to 15 and replaces the 60 particles by 15.
\<close>

theorem C9_counterexample:
  "\<exists>s s1. construct Plain (hero_options 1920) (bounds 1920 1080) half_random fixed_str = Some s \<and>
     step fixed_str (WindowResize (bounds 960 540) half_random) (destroy s) = Some s1 \<and>
     particleCount (config (destroy s)) = 60 \<and> particleCount (config s1) = 15 \<and>
     length (particles (destroy s)) = 60 \<and> length (particles s1) = 15 \<and> s1 \<noteq> destroy s"
proof -
  obtain s where s: "construct Plain (hero_options 1920) (bounds 1920 1080) half_random fixed_str = Some s"
    using construct_total by blast
  from construct_config(1) [OF s] have c: "particleCount (config s) = 60" "responsive (config s)"
    by (simp_all add: hero_config_simps full_area full_area' js_floor_def)
  from construct_config(2) [OF s] c(1) have l: "length (particles (destroy s)) = 60"
    by (simp add: destroy_keeps iterations_def)
  have d: "particleCount (config (destroy s)) = 60" "responsive (config (destroy s))"
    using c by (simp_all add: destroy_keeps)
  from resize_event_count [OF d(2), of fixed_str "bounds 960 540" half_random]
  obtain s1 where s1: "step fixed_str (WindowResize (bounds 960 540) half_random) (destroy s) = Some s1"
    "particleCount (config s1) = 15" "length (particles s1) = iterations (particleCount (config s1))"
    by (auto simp: d(1) quarter_area quarter_area' js_floor_def)
  from s1(2,3) have l1: "length (particles s1) = 15" by (simp add: iterations_def)
  have "s1 \<noteq> destroy s" using d(1) s1(2) by auto
  with s s1(1,2) d(1) l l1 show ?thesis by blast
qed

lemma run_append:
  "run num_str (es1 @ es2) s =
     (case run num_str es1 s of None \<Rightarrow> None | Some s1 \<Rightarrow> run num_str es2 s1)"
  by (induction es1 arbitrary: s) (simp_all split: option.splits)

lemma step_detached:
  assumes "\<not> hasParent (canvas s)" and "step num_str e s = Some s1"
  shows "\<not> hasParent (canvas s1)"
  using assms
  by (cases e)
     (auto simp: frame_def resume_def animate_keeps pause_keeps destroy_keeps optimize_keeps
        createParticles_keeps resizeCanvas_keeps split: list.splits if_splits)

lemma run_detached:
  assumes "\<not> hasParent (canvas s)" and "run num_str es s = Some s1"
  shows "\<not> hasParent (canvas s1)"
  using assms
proof (induction es arbitrary: s)
  case Nil
  then show ?case by simp
next
  case (Cons e es)
  from Cons.prems(2) obtain s2 where e: "step num_str e s = Some s2" and r: "run num_str es s2 = Some s1"
    by (auto split: option.splits)
  from step_detached [OF Cons.prems(1) e] have "\<not> hasParent (canvas s2)" .
  from Cons.IH [OF this r] show ?case .
qed

lemma pause_clears:
  assumes "frame_inv s"
  shows "pause s = s\<lparr>animationId := None, callbacks := []\<rparr>"
proof (cases "animationId s")
  case None
  with assms have "callbacks s = []" by (simp add: frame_inv_def)
  with None show ?thesis by (simp add: pause_def)
next
  case (Some h)
  with assms have "h \<noteq> 0" "callbacks s = [h]" by (simp_all add: frame_inv_def)
  with Some show ?thesis by (simp add: pause_def cancelAnimationFrame_def)
qed

lemma destroy_detached:
  assumes "frame_inv s" and "\<not> hasParent (canvas s)"
  shows "destroy s = s\<lparr>animationId := None, callbacks := []\<rparr>"
    and "(destroy s = s) = (animationId s = None)"
proof -
  show d: "destroy s = s\<lparr>animationId := None, callbacks := []\<rparr>"
    using assms(2) by (simp add: destroy_def Let_def pause_keeps pause_clears [OF assms(1)])
  show "(destroy s = s) = (animationId s = None)"
  proof
    assume "destroy s = s"
    then have "animationId s = animationId (destroy s)" by simp
    then show "animationId s = None" by (simp add: d)
  next
    assume n: "animationId s = None"
    with assms(1) have "callbacks s = []" by (simp add: frame_inv_def)
    with n show "destroy s = s" by (simp add: d)
  qed
qed

lemma resumed_after_destroy:
  assumes "frame_inv s"
  shows "\<exists>s1. step num_str (VisibilityChange False) (destroy s) = Some s1 \<and>
           \<not> hasParent (canvas s1) \<and> length (callbacks s1) = 1 \<and>
           animationId s1 \<noteq> None \<and> destroy s1 \<noteq> s1"
proof -
  obtain s1 where r: "resume num_str (destroy s) = Some s1"
    using step_total [of num_str Resume "destroy s"] by auto
  have i: "frame_inv (destroy s)" using destroy_frame_inv [OF assms] .
  from resume_frame_inv [OF i r] have f: "frame_inv s1" "length (callbacks s1) = 1" "truthy (animationId s1)"
    by simp_all
  have st: "step num_str (VisibilityChange False) (destroy s) = Some s1" using r by simp
  have c: "\<not> hasParent (canvas s1)"
    using step_detached [OF destroy_keeps(7) st] .
  from f(3) have n: "animationId s1 \<noteq> None" by (cases "animationId s1") simp_all
  with destroy_detached(2) [OF f(1) c] have "destroy s1 \<noteq> s1" by simp
  with st c f(2) n show ?thesis by blast
qed

text \<open>
  Claim C9, amended. \<open>destroy\<close> removes no listener, so a destroyed instance still sees
  events, and a visibility change can resume its frame loop. On an instance that has been
  destroyed, whatever it was before and whatever events it has seen since, the surface is
  detached. \<open>destroy\<close> again raises no error and changes nothing but the frame handle and
  the outstanding frame request, which it clears; it is a no-op exactly when the instance
  has no frame handle, as right after \<open>destroy\<close> (\<open>destroy\<close> twice is \<open>destroy\<close> once), and it is
  not a no-op after the document has become visible again. A resize event raises no error
  and leaves the surface detached, the frame handle and the outstanding frame requests, the
  pointer state and every configuration field other than the particle count as they were;
  it does resize the detached surface and rebuild the particle set, at the particle count
  it leaves in the configuration.
\<close>

theorem C9_after_destroy:
  "destroy (destroy s) = destroy s \<and>
   (\<exists>s0 d. construct k opts r0 rnd0 num_str = Some s0 \<and>
     run num_str (es1 @ Destroy # es2) s0 = Some d \<and>
     \<not> hasParent (canvas d) \<and>
     destroy d = d\<lparr>animationId := None, callbacks := []\<rparr> \<and>
     (destroy d = d) = (animationId d = None) \<and>
     destroy (destroy d) = destroy d \<and>
     (\<exists>d1. step num_str (WindowResize r rnd) d = Some d1 \<and>
        \<not> hasParent (canvas d1) \<and>
        animationId d1 = animationId d \<and> callbacks d1 = callbacks d \<and>
        mouse d1 = mouse d \<and>
        (config d1)\<lparr>particleCount := particleCount (config d)\<rparr> = config d \<and>
        width (canvas d1) = nat \<lfloor>rwidth r\<rfloor> \<and> height (canvas d1) = nat \<lfloor>rheight r\<rfloor> \<and>
        particles d1 = spawn (kind d) rnd (canvas d1) (config d1) (iterations (particleCount (config d1)))) \<and>
     (\<exists>d2. step num_str (VisibilityChange False) (destroy d) = Some d2 \<and>
        \<not> hasParent (canvas d2) \<and> length (callbacks d2) = 1 \<and>
        animationId d2 \<noteq> None \<and> destroy d2 \<noteq> d2))"
proof -
  obtain s0 where s0: "construct k opts r0 rnd0 num_str = Some s0" using construct_total by blast
  obtain a where a: "run num_str es1 s0 = Some a" using run_total by blast
  obtain d where d: "run num_str es2 (destroy a) = Some d" using run_total by blast
  have rd: "run num_str (es1 @ Destroy # es2) s0 = Some d"
    by (simp add: run_append a d)
  have i0: "frame_inv s0" using construct_frame_inv [OF s0] by simp
  have ia: "frame_inv (destroy a)" using destroy_frame_inv [OF run_frame_inv [OF i0 a]] .
  have i: "frame_inv d" using run_frame_inv [OF ia d] .
  have c: "\<not> hasParent (canvas d)" using run_detached [OF destroy_keeps(7) d] .
  let ?d1 = "createParticles rnd (resizeCanvas r d)"
  have "step num_str (WindowResize r rnd) d = Some ?d1" by simp
  moreover have "\<not> hasParent (canvas ?d1)"
    using c by (simp add: createParticles_keeps resizeCanvas_keeps)
  moreover have "animationId ?d1 = animationId d" "callbacks ?d1 = callbacks d" "mouse ?d1 = mouse d"
    by (simp_all add: createParticles_keeps resizeCanvas_keeps)
  moreover have "(config ?d1)\<lparr>particleCount := particleCount (config d)\<rparr> = config d"
    by (simp add: createParticles_keeps resizeCanvas_config)
  moreover have "width (canvas ?d1) = nat \<lfloor>rwidth r\<rfloor>" "height (canvas ?d1) = nat \<lfloor>rheight r\<rfloor>"
    by (simp_all add: createParticles_keeps resizeCanvas_def Let_def)
  moreover have "particles ?d1 = spawn (kind d) rnd (canvas ?d1) (config ?d1) (iterations (particleCount (config ?d1)))"
    by (simp add: createParticles_particles createParticles_keeps resizeCanvas_keeps)
  ultimately have rs: "\<exists>d1. step num_str (WindowResize r rnd) d = Some d1 \<and>
        \<not> hasParent (canvas d1) \<and>
        animationId d1 = animationId d \<and> callbacks d1 = callbacks d \<and>
        mouse d1 = mouse d \<and>
        (config d1)\<lparr>particleCount := particleCount (config d)\<rparr> = config d \<and>
        width (canvas d1) = nat \<lfloor>rwidth r\<rfloor> \<and> height (canvas d1) = nat \<lfloor>rheight r\<rfloor> \<and>
        particles d1 = spawn (kind d) rnd (canvas d1) (config d1) (iterations (particleCount (config d1)))"
    by blast
  note dd = destroy_detached [OF i c] destroy_destroy [of d]
  note rq = resumed_after_destroy [OF i, of num_str]
  have "\<exists>s0 d. construct k opts r0 rnd0 num_str = Some s0 \<and>
     run num_str (es1 @ Destroy # es2) s0 = Some d \<and>
     \<not> hasParent (canvas d) \<and>
     destroy d = d\<lparr>animationId := None, callbacks := []\<rparr> \<and>
     (destroy d = d) = (animationId d = None) \<and>
     destroy (destroy d) = destroy d \<and>
     (\<exists>d1. step num_str (WindowResize r rnd) d = Some d1 \<and>
        \<not> hasParent (canvas d1) \<and>
        animationId d1 = animationId d \<and> callbacks d1 = callbacks d \<and>
        mouse d1 = mouse d \<and>
        (config d1)\<lparr>particleCount := particleCount (config d)\<rparr> = config d \<and>
        width (canvas d1) = nat \<lfloor>rwidth r\<rfloor> \<and> height (canvas d1) = nat \<lfloor>rheight r\<rfloor> \<and>
        particles d1 = spawn (kind d) rnd (canvas d1) (config d1) (iterations (particleCount (config d1)))) \<and>
     (\<exists>d2. step num_str (VisibilityChange False) (destroy d) = Some d2 \<and>
        \<not> hasParent (canvas d2) \<and> length (callbacks d2) = 1 \<and>
        animationId d2 \<noteq> None \<and> destroy d2 \<noteq> d2)"
    by (rule exI [of _ s0], rule exI [of _ d], intro conjI) (rule s0 rd c dd rs rq)+
  with destroy_destroy [of s] show ?thesis by (rule conjI)
qed


section \<open>The governor's mitigation\<close>

lemma optimize_systems_each:
  "list_all2 (\<lambda>a b. fst b = fst a \<and> (\<exists>r. snd b = optimize r (snd a)))
     xs (optimize_systems rnd xs)"
proof (induction xs arbitrary: rnd)
  case Nil
  show ?case by simp
next
  case (Cons x xs)
  obtain k s where x: "x = (k, s)" by (cases x)
  have "\<exists>r. optimize rnd s = optimize r s" by blast
  with Cons show ?case by (simp add: x)
qed

lemma checkFrameRate_low:
  assumes "\<not> isHighPerformance pg"
  shows "\<not> isHighPerformance (checkFrameRate t rnd pg)" and "systems (checkFrameRate t rnd pg) = systems pg"
  using assms by (simp_all add: checkFrameRate_def Let_def)

lemma checkFrameRate_flips:
  assumes "isHighPerformance pg" and "frames pg + 1 < 30" and "1000 \<le> t - lastTime pg"
  shows "\<not> isHighPerformance (checkFrameRate t rnd pg)"
    and "systems (checkFrameRate t rnd pg) = optimize_systems rnd (systems pg)"
  using assms by (simp_all add: checkFrameRate_def Let_def optimizeParticles_def)

lemma page_step_low: "\<not> isHighPerformance pg \<Longrightarrow> \<not> isHighPerformance (page_step e pg)"
  by (cases e) (simp_all add: checkFrameRate_low detectPerformance_def Let_def)

lemma page_run_low: "\<not> isHighPerformance pg \<Longrightarrow> \<not> isHighPerformance (page_run es pg)"
  by (induction es arbitrary: pg) (simp_all add: page_step_low)

text \<open>
  Claim C4. When a run of the governor's frame check, in the high-performance state,
  closes a window of at least 1000 ms in which it has counted fewer than 30 frames, the
  flag is low-performance afterwards; the registry holds the same keys in the same order,
  and every registered instance has gone through the mitigation once: its particle count
  is the floor of 0.6 times the count before, and its particle set is rebuilt with that
  many particles. Whatever happens to the page afterwards, the flag stays low-performance,
  and no later frame check touches the registered instances again.
\<close>

theorem C4_governor_degrades_once:
  assumes "isHighPerformance pg" and "frames pg + 1 < 30" and "1000 \<le> t - lastTime pg"
  shows "\<not> isHighPerformance (checkFrameRate t rnd pg) \<and>
     list_all2
       (\<lambda>a b. fst b = fst a \<and> (\<exists>r. snd b = optimize r (snd a)) \<and>
          particleCount (config (snd b)) = js_floor (particleCount (config (snd a)) * 0.6) \<and>
          length (particles (snd b)) = nat \<lfloor>particleCount (config (snd a)) * 0.6\<rfloor>)
       (systems pg) (systems (checkFrameRate t rnd pg)) \<and>
     \<not> isHighPerformance (page_run es (checkFrameRate t rnd pg)) \<and>
     systems (checkFrameRate u rnu (page_run es (checkFrameRate t rnd pg))) =
       systems (page_run es (checkFrameRate t rnd pg))"
proof -
  have low: "\<not> isHighPerformance (checkFrameRate t rnd pg)"
    using checkFrameRate_flips(1) [OF assms] .
  have "list_all2 (\<lambda>a b. fst b = fst a \<and> (\<exists>r. snd b = optimize r (snd a)))
          (systems pg) (optimize_systems rnd (systems pg))"
    by (rule optimize_systems_each)
  then have "list_all2
           (\<lambda>a b. fst b = fst a \<and> (\<exists>r. snd b = optimize r (snd a)) \<and>
              particleCount (config (snd b)) = js_floor (particleCount (config (snd a)) * 0.6) \<and>
              length (particles (snd b)) = nat \<lfloor>particleCount (config (snd a)) * 0.6\<rfloor>)
           (systems pg) (optimize_systems rnd (systems pg))"
    by (rule list_all2_mono) (auto simp: optimize_config optimize_particles)
  then have each: "list_all2
           (\<lambda>a b. fst b = fst a \<and> (\<exists>r. snd b = optimize r (snd a)) \<and>
              particleCount (config (snd b)) = js_floor (particleCount (config (snd a)) * 0.6) \<and>
              length (particles (snd b)) = nat \<lfloor>particleCount (config (snd a)) * 0.6\<rfloor>)
           (systems pg) (systems (checkFrameRate t rnd pg))"
    using checkFrameRate_flips(2) [OF assms] by simp
  have later: "\<not> isHighPerformance (page_run es (checkFrameRate t rnd pg))"
    using page_run_low [OF low] .
  have "systems (checkFrameRate u rnu (page_run es (checkFrameRate t rnd pg))) =
         systems (page_run es (checkFrameRate t rnd pg))"
    using checkFrameRate_low(2) [OF later] .
  with low each later show ?thesis by blast
qed

theorem C4_governor_degrades_once_witness:
  "isHighPerformance sample_page \<and> frames sample_page + 1 < 30 \<and>
   1000 \<le> 1000 - lastTime sample_page \<and>
   \<not> isHighPerformance (checkFrameRate 1000 half_random sample_page) \<and>
   map fst (systems (checkFrameRate 1000 half_random sample_page)) = [''hero-0''] \<and>
   map (\<lambda>b. particleCount (config (snd b))) (systems (checkFrameRate 1000 half_random sample_page)) = [1] \<and>
   map (\<lambda>b. length (particles (snd b))) (systems (checkFrameRate 1000 half_random sample_page)) = [1] \<and>
   \<not> isHighPerformance (page_run [Tick 2000 half_random, Detect True 1920 None None, Tick 3000 half_random]
       (checkFrameRate 1000 half_random sample_page))"
proof -
  have h: "isHighPerformance sample_page" "frames sample_page + 1 < 30"
    "1000 \<le> 1000 - lastTime sample_page"
    by (simp_all add: sample_page_def)
  have c: "particleCount (config sample_system) = 2"
    by (simp add: sample_system_def)
  have s: "systems sample_page = [(''hero-0'', sample_system)]"
    by (simp add: sample_page_def)
  note th = C4_governor_degrades_once [OF h, where rnd = half_random
      and u = 4000 and rnu = half_random and es = "[Tick 2000 half_random, Detect True 1920 None None, Tick 3000 half_random]"]
  from th h show ?thesis
    by (auto simp: s c list_all2_Cons1 js_floor_def)
qed

section \<open>Colours\<close>

lemma hero_config_fields:
  "connectionDistance hero_config = 120"
  "connectionColor hero_config = ''rgba(46, 204, 113, 0.15)''"
  "particleColor hero_config = ''rgba(46, 204, 113, 0.8)''"
  by (simp_all add: hero_config_def make_config_def hero_options_def or_default_def)

lemma default_config_fields:
  "connectionColor (make_config k no_options) = ''rgba(46, 204, 113, 0.2)''"
  "particleColor (make_config k no_options) = ''rgba(46, 204, 113, 0.6)''"
  by (simp_all add: make_config_def no_options_def or_default_def)

lemma replace_hero_connection:
  "replace_first ''0.2'' rep ''rgba(46, 204, 113, 0.15)'' = ''rgba(46, 204, 113, 0.15)''"
  by simp

lemma replace_hero_particle:
  "replace_first ''0.6'' rep ''rgba(46, 204, 113, 0.8)'' = ''rgba(46, 204, 113, 0.8)''"
  by simp

lemma replace_default_connection:
  "replace_first ''0.2'' rep ''rgba(46, 204, 113, 0.2)'' = ''rgba(46, 204, 113, '' @ rep @ '')''"
  by simp

lemma replace_default_particle:
  "replace_first ''0.6'' rep ''rgba(46, 204, 113, 0.6)'' = ''rgba(46, 204, 113, '' @ rep @ '')''"
  by simp

lemma sqrt_3600: "sqrt 3600 = 60"
  by (rule real_sqrt_unique) simp_all

text \<open>
  With the default connection colour, whose text holds the literal \<open>0.2\<close>, a pair below the
  threshold \<open>t\<close> is joined by a line whose alpha is the formatted number
  \<open>(t - d) / t * 0.2\<close>, and a pair at or beyond it is not joined.
\<close>

lemma connection_default_colour:
  assumes "connectionColor cfg = ''rgba(46, 204, 113, 0.2)''"
    and "d = sqrt ((pos_x a - pos_x b) * (pos_x a - pos_x b) + (pos_y a - pos_y b) * (pos_y a - pos_y b))"
  shows "connection num_str cfg a b =
     (if d < connectionDistance cfg
      then Some [StrokeLine
                   (''rgba(46, 204, 113, '' @ num_str ((connectionDistance cfg - d) / connectionDistance cfg * 0.2) @ '')'')
                   1 (pos_x a) (pos_y a) (pos_x b) (pos_y b)]
      else Some [])"
proof (cases "d < connectionDistance cfg")
  case True
  have "0 \<le> d" unfolding assms(2) by (rule sqrt_sum_squares_nonneg)
  with True have "connectionDistance cfg \<noteq> 0" by linarith
  with True show ?thesis
    unfolding connection_def Let_def assms(2) [symmetric] assms(1) js_div_def
    by (simp only: if_True if_False option.case replace_default_connection)
next
  case False
  then show ?thesis
    unfolding connection_def Let_def assms(2) [symmetric] by simp
qed

text \<open>
  Claim C2 (the code differs). The alpha of a connection line is written by replacing the
  literal text \<open>0.2\<close> in the configured connection colour. The hero configuration of the
  registry sets the connection colour \<open>rgba(46, 204, 113, 0.15)\<close>, which does not hold that
  text: there every pair below the threshold 120 is joined by a line of the unchanged colour,
  alpha 0.15, whatever the distance; for two particles at distance 60 the claim gives half
  the base alpha.
\<close>

theorem C2_hero_connection_alpha_constant:
  "connection num_str hero_config a b =
     (if sqrt ((pos_x a - pos_x b) * (pos_x a - pos_x b) + (pos_y a - pos_y b) * (pos_y a - pos_y b)) < 120
      then Some [StrokeLine ''rgba(46, 204, 113, 0.15)'' 1 (pos_x a) (pos_y a) (pos_x b) (pos_y b)]
      else Some []) \<and>
   connection num_str hero_config (Circle (still_particle 0 0)) (Circle (still_particle 60 0)) =
     Some [StrokeLine ''rgba(46, 204, 113, 0.15)'' 1 0 0 60 0]"
proof -
  have g: "connection num_str hero_config a b =
     (if sqrt ((pos_x a - pos_x b) * (pos_x a - pos_x b) + (pos_y a - pos_y b) * (pos_y a - pos_y b)) < 120
      then Some [StrokeLine ''rgba(46, 204, 113, 0.15)'' 1 (pos_x a) (pos_y a) (pos_x b) (pos_y b)]
      else Some [])" for a b
    unfolding connection_def Let_def hero_config_fields js_div_def
    by (simp only: replace_hero_connection) simp
  have "connection num_str hero_config (Circle (still_particle 0 0)) (Circle (still_particle 60 0)) =
     Some [StrokeLine ''rgba(46, 204, 113, 0.15)'' 1 0 0 60 0]"
    unfolding g by (simp add: still_particle_def sqrt_3600)
  with g [of a b] show ?thesis by simp
qed

text \<open>
  Claim C6 (the code differs). The opacity of a particle is written by replacing the
  literal text \<open>0.6\<close> in the configured particle colour. The hero configuration sets the
  particle colour \<open>rgba(46, 204, 113, 0.8)\<close>, which does not hold that text: there every
  particle, whatever its own opacity, is painted as a disc of its radius and a disc of twice
  its radius, both in the unchanged colour of alpha 0.8.
\<close>

theorem C6_hero_fill_ignores_opacity:
  "draw num_str hero_config p =
     [FillDisc (px p) (py p) (psize p) ''rgba(46, 204, 113, 0.8)'',
      FillDisc (px p) (py p) (psize p * 2) ''rgba(46, 204, 113, 0.8)'']"
  unfolding draw_def hero_config_fields by (simp only: replace_hero_particle)

text \<open>
  With the default particle colour, whose text holds the literal \<open>0.6\<close>, the two discs carry
  the particle's own opacity and a tenth of it.
\<close>

lemma draw_default_colour:
  assumes "particleColor cfg = ''rgba(46, 204, 113, 0.6)''"
  shows "draw num_str cfg p =
     [FillDisc (px p) (py p) (psize p) (''rgba(46, 204, 113, '' @ num_str (opacity p) @ '')''),
      FillDisc (px p) (py p) (psize p * 2) (''rgba(46, 204, 113, '' @ num_str (opacity p * 0.1) @ '')'')]"
  unfolding draw_def assms by (simp only: replace_default_particle)

section \<open>Thresholds of zero\<close>

lemma connection_zero_threshold:
  "connectionDistance cfg = 0 \<Longrightarrow> connection num_str cfg a b = Some []"
  by (simp add: connection_def Let_def not_sum_squares_lt_zero)

lemma connections_from_zero_threshold:
  "connectionDistance cfg = 0 \<Longrightarrow> connections_from num_str cfg a ps = Some []"
  by (induction ps) (simp_all add: connection_zero_threshold)

lemma drawConnections_zero_threshold:
  "connectionDistance cfg = 0 \<Longrightarrow> drawConnections num_str cfg ps = Some []"
  by (induction ps) (simp_all add: connections_from_zero_threshold)

lemma repel_zero_radius: "mouseRadius cfg = 0 \<Longrightarrow> repel m cfg p = Some p"
  by (simp add: repel_def Let_def not_sum_squares_lt_zero)

lemma repel_disabled: "repel m (cfg\<lparr>mouseInteraction := False\<rparr>) p = Some p"
  by (simp add: repel_def)

lemma update_any_zero_radius:
  assumes "mouseRadius cfg = 0"
  shows "update_any c m cfg p = update_any c m (cfg\<lparr>mouseInteraction := False\<rparr>) p"
  by (cases p) (simp_all add: update_def g_update_def repel_zero_radius [OF assms] repel_disabled)

lemma animate_zero_threshold:
  assumes "connectionDistance (config s) = 0"
  shows "\<exists>s1 qs ds. animate num_str s = Some s1 \<and>
     animate_particles num_str (canvas s) (mouse s) (config s) (particles s) = Some (qs, ds) \<and>
     particles s1 = qs \<and> surface s1 = ds"
proof -
  obtain qs ds where a: "animate_particles num_str (canvas s) (mouse s) (config s) (particles s) = Some (qs, ds)"
    using animate_particles_total by blast
  then show ?thesis
    by (simp add: animate_def drawConnections_zero_threshold [OF assms] requestAnimationFrame_def)
qed

text \<open>
  Claim C8. With a connection distance of zero, connection rendering draws nothing: a frame
  paints what the particles paint and no line. With a mouse radius of zero, mouse repulsion
  leaves every particle as it is: \<open>update\<close> gives what it gives with mouse interaction
  switched off. No division by zero occurs: every update, every frame and every sequence of
  events runs to the end without one, for these and for all other configurations.
\<close>

theorem C8_zero_thresholds:
  "(connectionDistance cfg = 0 \<longrightarrow> drawConnections num_str cfg ps = Some []) \<and>
   (connectionDistance (config s) = 0 \<longrightarrow>
      (\<exists>s1 qs ds. animate num_str s = Some s1 \<and>
         animate_particles num_str (canvas s) (mouse s) (config s) (particles s) = Some (qs, ds) \<and>
         particles s1 = qs \<and> surface s1 = ds)) \<and>
   (mouseRadius cfg = 0 \<longrightarrow>
      repel m cfg p = Some p \<and>
      update_any c m cfg q = update_any c m (cfg\<lparr>mouseInteraction := False\<rparr>) q) \<and>
   (\<exists>q1. update_any c m cfg q = Some q1) \<and>
   (\<exists>l. drawConnections num_str cfg ps = Some l) \<and>
   (\<exists>s1. animate num_str s = Some s1) \<and>
   (\<exists>s1. run num_str es s = Some s1)"
  using drawConnections_zero_threshold [of cfg num_str ps] animate_zero_threshold [of s num_str]
    repel_zero_radius [of cfg m p] update_any_zero_radius [of cfg c m q]
    update_any_total [of c m cfg q] drawConnections_total [of num_str cfg ps]
    animate_total [of num_str s] run_total [of num_str es s]
  by blast

theorem C8_zero_thresholds_witness:
  "connectionDistance (hero_config\<lparr>connectionDistance := 0, mouseRadius := 0\<rparr>) = 0 \<and>
   mouseRadius (hero_config\<lparr>connectionDistance := 0, mouseRadius := 0\<rparr>) = 0 \<and>
   drawConnections fixed_str (hero_config\<lparr>connectionDistance := 0, mouseRadius := 0\<rparr>)
     [Circle (still_particle 100 100), Circle (still_particle 100 100), Circle (still_particle 130 140)]
     = Some [] \<and>
   repel \<lparr>mx = 100, my = 100\<rparr> (hero_config\<lparr>connectionDistance := 0, mouseRadius := 0\<rparr>)
     (still_particle 100 100) = Some (still_particle 100 100) \<and>
   (\<exists>s1. animate fixed_str
        (sample_system\<lparr>config := hero_config\<lparr>connectionDistance := 0, mouseRadius := 0\<rparr>\<rparr>) = Some s1 \<and>
      length (surface s1) = 4)"
proof -
  let ?cfg = "hero_config\<lparr>connectionDistance := 0, mouseRadius := 0\<rparr>"
  let ?s = "sample_system\<lparr>config := ?cfg\<rparr>"
  have h: "connectionDistance ?cfg = 0" "mouseRadius ?cfg = 0" "connectionDistance (config ?s) = 0"
    by simp_all
  note th = C8_zero_thresholds [where cfg = ?cfg and s = ?s and num_str = fixed_str
      and ps = "[Circle (still_particle 100 100), Circle (still_particle 100 100), Circle (still_particle 130 140)]"
      and m = "\<lparr>mx = 100, my = 100\<rparr>" and p = "still_particle 100 100"]
  from th h obtain s1 qs ds where a: "animate fixed_str ?s = Some s1"
    "animate_particles fixed_str (canvas ?s) (mouse ?s) (config ?s) (particles ?s) = Some (qs, ds)"
    "surface s1 = ds"
    by blast
  from a(2) have "length ds = 4"
    by (auto simp: sample_system_def draw_def split: option.splits)
  with a(1,3) th h show ?thesis by blast
qed

section \<open>The pointer\<close>

lemma sqrt_quotient:
  assumes "x \<noteq> 0"
  shows "sqrt (1 + (y / x)\<^sup>2) = sqrt (x * x + y * y) / \<bar>x\<bar>"
proof -
  have "1 + (y / x)\<^sup>2 = (x * x + y * y) / (x * x)"
    using assms by (simp add: field_simps power2_eq_square)
  then show ?thesis by (simp add: real_sqrt_divide)
qed

lemma arctan_quotient:
  assumes "x \<noteq> 0"
  shows "cos (arctan (y / x)) = \<bar>x\<bar> / sqrt (x * x + y * y)"
    and "sin (arctan (y / x)) = (y / x) * (\<bar>x\<bar> / sqrt (x * x + y * y))"
  using assms by (simp_all add: cos_arctan sin_arctan sqrt_quotient)

lemma sum_squares_over_sqrt:
  assumes "x \<noteq> 0"
  shows "(x * x + y * y) / sqrt (x * x + y * y) = sqrt (x * x + y * y)"
proof -
  have "0 < x\<^sup>2" using assms by simp
  then have "0 < x * x" by (simp add: power2_eq_square)
  moreover have "0 \<le> y * y" by simp
  ultimately have "0 < x * x + y * y" by (rule add_pos_nonneg)
  then show ?thesis by (metis less_imp_le real_div_sqrt)
qed

lemma atan2_direction:
  "cos (atan2 y x) * x + sin (atan2 y x) * y = sqrt (x * x + y * y)"
proof -
  consider "0 < x" | "x < 0" | "x = 0" by linarith
  then show ?thesis
  proof cases
    case 1
    then have "cos (atan2 y x) * x + sin (atan2 y x) * y
        = (x / sqrt (x * x + y * y)) * x + (y / x) * (x / sqrt (x * x + y * y)) * y"
      by (simp add: atan2_def arctan_quotient)
    also have "\<dots> = (x * x + y * y) / sqrt (x * x + y * y)"
      using 1 by (simp add: add_divide_distrib)
    finally show ?thesis using 1 by (simp add: sum_squares_over_sqrt)
  next
    case 2
    then have "cos (atan2 y x) * x + sin (atan2 y x) * y
        = - ((- x / sqrt (x * x + y * y)) * x + (y / x) * (- x / sqrt (x * x + y * y)) * y)"
      by (simp add: atan2_def arctan_quotient)
    also have "\<dots> = (x * x + y * y) / sqrt (x * x + y * y)"
      using 2 by (simp add: add_divide_distrib)
    finally show ?thesis using 2 by (simp add: sum_squares_over_sqrt)
  next
    case 3
    then show ?thesis by (simp add: atan2_def)
  qed
qed

lemma repel_impulse:
  assumes "mouseInteraction cfg" and "- 500 < mx m"
    and "d = sqrt ((mx m - px p) * (mx m - px p) + (my m - py p) * (my m - py p))"
    and "d < mouseRadius cfg"
    and "a = atan2 (my m - py p) (mx m - px p)"
  shows "repel m cfg p =
           Some (p\<lparr>vx := vx p - cos a * ((mouseRadius cfg - d) / mouseRadius cfg) * 0.5,
                   vy := vy p - sin a * ((mouseRadius cfg - d) / mouseRadius cfg) * 0.5\<rparr>)"
    and "0 < (mouseRadius cfg - d) / mouseRadius cfg"
proof -
  have "0 \<le> d" unfolding assms(3) by (rule sqrt_sum_squares_nonneg)
  with assms(4) have r: "0 < mouseRadius cfg" by linarith
  with assms(4) show "0 < (mouseRadius cfg - d) / mouseRadius cfg" by simp
  from r assms(1,2,4) show "repel m cfg p =
           Some (p\<lparr>vx := vx p - cos a * ((mouseRadius cfg - d) / mouseRadius cfg) * 0.5,
                   vy := vy p - sin a * ((mouseRadius cfg - d) / mouseRadius cfg) * 0.5\<rparr>)"
    unfolding repel_def Let_def assms(3) [symmetric] assms(5) [symmetric] js_div_def by simp
qed

lemma repel_guard: "mx m \<le> - 500 \<Longrightarrow> repel m cfg p = Some p"
  by (simp add: repel_def)

lemma update_impulse:
  assumes "mouseInteraction cfg" and "- 500 < mx m"
    and "sqrt ((mx m - px (move c p)) * (mx m - px (move c p)) +
               (my m - py (move c p)) * (my m - py (move c p))) < mouseRadius cfg"
  shows "\<exists>q q0. update c m cfg p = Some q \<and>
           update c m (cfg\<lparr>mouseInteraction := False\<rparr>) p = Some q0 \<and>
           px q = px q0 \<and> py q = py q0 \<and> (vx q \<noteq> vx q0 \<or> vy q \<noteq> vy q0) \<and>
           0 \<le> (vx q - vx q0) * (px q - mx m) + (vy q - vy q0) * (py q - my m)"
proof -
  define p1 where "p1 = move c p"
  define dx where "dx = mx m - px p1"
  define dy where "dy = my m - py p1"
  define d where "d = sqrt (dx * dx + dy * dy)"
  define a where "a = atan2 dy dx"
  define f where "f = (mouseRadius cfg - d) / mouseRadius cfg"
  define q where "q = settle (p1\<lparr>vx := vx p1 - cos a * f * 0.5, vy := vy p1 - sin a * f * 0.5\<rparr>)"
  define q0 where "q0 = settle p1"
  have dlt: "d < mouseRadius cfg" using assms(3) by (simp add: d_def dx_def dy_def p1_def)
  have rep: "repel m cfg p1 = Some (p1\<lparr>vx := vx p1 - cos a * f * 0.5, vy := vy p1 - sin a * f * 0.5\<rparr>)"
    and fpos: "0 < f"
    using repel_impulse [OF assms(1,2) _ dlt, of p1 a]
    by (simp_all add: d_def dx_def dy_def a_def f_def)
  have u: "update c m cfg p = Some q"
    by (simp add: update_def q_def rep p1_def [symmetric])
  have u0: "update c m (cfg\<lparr>mouseInteraction := False\<rparr>) p = Some q0"
    by (simp add: update_def q0_def repel_disabled p1_def [symmetric])
  have pos: "px q = px p1" "py q = py p1" "px q0 = px p1" "py q0 = py p1"
    by (simp_all add: q_def q0_def settle_def Let_def)
  define k :: real where "k = 0.495"
  have kpos: "0 < k" by (simp add: k_def)
  have vel: "vx q - vx q0 = - (cos a * f * k)" "vy q - vy q0 = - (sin a * f * k)"
    by (simp_all add: q_def q0_def settle_def Let_def k_def field_simps)
  have "cos a \<noteq> 0 \<or> sin a \<noteq> 0"
    using sin_zero_abs_cos_one [of a] by auto
  with fpos kpos vel have ne: "vx q \<noteq> vx q0 \<or> vy q \<noteq> vy q0" by auto
  have "(vx q - vx q0) * (px q - mx m) + (vy q - vy q0) * (py q - my m)
      = f * k * (cos a * dx + sin a * dy)"
    by (simp add: vel pos dx_def dy_def algebra_simps)
  also have "\<dots> = f * k * d"
    by (simp add: a_def d_def atan2_direction)
  finally have "(vx q - vx q0) * (px q - mx m) + (vy q - vy q0) * (py q - my m) = f * k * d" .
  moreover have "0 \<le> d" unfolding d_def by (rule sqrt_sum_squares_nonneg)
  ultimately have "0 \<le> (vx q - vx q0) * (px q - mx m) + (vy q - vy q0) * (py q - my m)"
    using fpos kpos by simp
  with u u0 pos ne show ?thesis by auto
qed

lemma step_mouse:
  assumes "\<not> pointer_event e" and "step num_str e s = Some s1"
  shows "mouse s1 = mouse s"
  using assms
  by (cases e)
     (auto simp: frame_def resume_def animate_keeps pause_keeps destroy_keeps optimize_keeps
        createParticles_keeps resizeCanvas_keeps split: list.splits if_splits)

lemma run_mouse:
  assumes "\<not> list_ex pointer_event es" and "run num_str es s = Some s1"
  shows "mouse s1 = mouse s"
  using assms
proof (induction es arbitrary: s)
  case Nil
  then show ?case by simp
next
  case (Cons e es)
  from Cons.prems(2) obtain s2 where e: "step num_str e s = Some s2" and r: "run num_str es s2 = Some s1"
    by (auto split: option.splits)
  from Cons.prems(1) have n: "\<not> pointer_event e" "\<not> list_ex pointer_event es" by simp_all
  from step_mouse [OF n(1) e] Cons.IH [OF n(2) r] show ?case by simp
qed

text \<open>
  Claim C10. A newly created instance has the pointer state \<open>(0, 0)\<close>, and keeps it through
  every sequence of events without a pointer event. Whenever mouse interaction is enabled,
  the pointer's x-coordinate is above \<open>-500\<close> (as that of \<open>(0, 0)\<close> is) and the particle, after
  its movement and wrap, is within the mouse radius of the pointer, \<open>update\<close> changes the
  velocity, against what it gives without mouse interaction, by an impulse that is not zero
  and points away from the pointer. A pointer x-coordinate of \<open>-500\<close> or less switches the
  repulsion off. No event but a pointer event writes the pointer state; with the listeners
  bound, pointer-leave writes \<open>(-1000, -1000)\<close> and pointer-move the event's position relative
  to the container.
\<close>

theorem C10_pointer_starts_at_origin:
  "(\<exists>s0. construct k opts r rnd num_str = Some s0 \<and> mouse s0 = \<lparr>mx = 0, my = 0\<rparr> \<and>
      (\<not> list_ex pointer_event es \<longrightarrow>
         (\<exists>s1. run num_str es s0 = Some s1 \<and> mouse s1 = \<lparr>mx = 0, my = 0\<rparr>))) \<and>
   (mouseInteraction cfg \<and> - 500 < mx m \<and>
      sqrt ((mx m - px (move c p)) * (mx m - px (move c p)) +
            (my m - py (move c p)) * (my m - py (move c p))) < mouseRadius cfg \<longrightarrow>
      (\<exists>q q0. update c m cfg p = Some q \<and>
           update c m (cfg\<lparr>mouseInteraction := False\<rparr>) p = Some q0 \<and>
           px q = px q0 \<and> py q = py q0 \<and> (vx q \<noteq> vx q0 \<or> vy q \<noteq> vy q0) \<and>
           0 \<le> (vx q - vx q0) * (px q - mx m) + (vy q - vy q0) * (py q - my m))) \<and>
   (mx m \<le> - 500 \<longrightarrow> update c m cfg p = update c m (cfg\<lparr>mouseInteraction := False\<rparr>) p) \<and>
   (\<not> pointer_event e \<longrightarrow> (\<exists>s1. step num_str e s = Some s1 \<and> mouse s1 = mouse s)) \<and>
   step num_str MouseLeave s =
     Some (if mouseListeners s then s\<lparr>mouse := \<lparr>mx = - 1000, my = - 1000\<rparr>\<rparr> else s) \<and>
   step num_str (MouseMove clientX clientY rc) s =
     Some (if mouseListeners s then s\<lparr>mouse := \<lparr>mx = clientX - rleft rc, my = clientY - rtop rc\<rparr>\<rparr> else s)"
proof -
  obtain s0 where s0: "construct k opts r rnd num_str = Some s0" using construct_total by blast
  obtain s1 where s1: "run num_str es s0 = Some s1" using run_total by blast
  have m0: "mouse s0 = \<lparr>mx = 0, my = 0\<rparr>" using construct_config(3) [OF s0] .
  have a: "\<exists>s0. construct k opts r rnd num_str = Some s0 \<and> mouse s0 = \<lparr>mx = 0, my = 0\<rparr> \<and>
      (\<not> list_ex pointer_event es \<longrightarrow>
         (\<exists>s1. run num_str es s0 = Some s1 \<and> mouse s1 = \<lparr>mx = 0, my = 0\<rparr>))"
    using s0 s1 m0 run_mouse [OF _ s1] by auto
  have b: "mx m \<le> - 500 \<longrightarrow> update c m cfg p = update c m (cfg\<lparr>mouseInteraction := False\<rparr>) p"
    by (simp add: update_def repel_guard repel_disabled)
  obtain s2 where s2: "step num_str e s = Some s2" using step_total by blast
  have d: "\<not> pointer_event e \<longrightarrow> (\<exists>s1. step num_str e s = Some s1 \<and> mouse s1 = mouse s)"
    using s2 step_mouse [OF _ s2] by auto
  from a b d update_impulse [of cfg m c p] show ?thesis by simp
qed

lemma sqrt_2500: "sqrt 2500 = 50"
  by (rule real_sqrt_unique) simp_all

theorem C10_pointer_starts_at_origin_witness:
  "mouseInteraction hero_config \<and> (- 500 :: real) < 0 \<and>
   px (move \<lparr>width = 960, height = 540, hasParent = True\<rparr> (still_particle 30 40)) = 30 \<and>
   py (move \<lparr>width = 960, height = 540, hasParent = True\<rparr> (still_particle 30 40)) = 40 \<and>
   sqrt ((0 - 30) * (0 - 30) + (0 - 40) * (0 - 40)) < mouseRadius hero_config \<and>
   (\<exists>q q0. update \<lparr>width = 960, height = 540, hasParent = True\<rparr> \<lparr>mx = 0, my = 0\<rparr> hero_config
               (still_particle 30 40) = Some q \<and>
      update \<lparr>width = 960, height = 540, hasParent = True\<rparr> \<lparr>mx = 0, my = 0\<rparr>
        (hero_config\<lparr>mouseInteraction := False\<rparr>) (still_particle 30 40) = Some q0 \<and>
      (vx q \<noteq> vx q0 \<or> vy q \<noteq> vy q0) \<and>
      0 \<le> (vx q - vx q0) * (px q - 0) + (vy q - vy q0) * (py q - 0)) \<and>
   update \<lparr>width = 960, height = 540, hasParent = True\<rparr> \<lparr>mx = - 1000, my = - 1000\<rparr> hero_config
       (still_particle 30 40) =
     update \<lparr>width = 960, height = 540, hasParent = True\<rparr> \<lparr>mx = - 1000, my = - 1000\<rparr>
       (hero_config\<lparr>mouseInteraction := False\<rparr>) (still_particle 30 40) \<and>
   (\<exists>s1. step fixed_str (WindowResize (bounds 960 540) half_random) sample_system = Some s1 \<and>
      mouse s1 = mouse sample_system) \<and>
   (\<exists>s0 s1. construct Plain (hero_options 1920) (bounds 1920 1080) half_random fixed_str = Some s0 \<and>
      run fixed_str [Frame, WindowResize (bounds 960 540) half_random, Frame] s0 = Some s1 \<and>
      mouse s1 = \<lparr>mx = 0, my = 0\<rparr>)"
proof -
  let ?c = "\<lparr>width = 960, height = 540, hasParent = True\<rparr>"
  let ?p = "still_particle 30 40"
  have mv: "px (move ?c ?p) = 30" "py (move ?c ?p) = 40"
    by (simp_all add: move_def still_particle_def Let_def)
  have h: "mouseInteraction hero_config" "mouseRadius hero_config = 120"
    by (simp_all add: hero_config_def make_config_def hero_options_def or_default_def)
  have lt: "sqrt ((0 - 30) * (0 - 30) + (0 - 40) * (0 - 40)) < mouseRadius hero_config"
    by (simp add: h sqrt_2500)
  have n: "\<not> pointer_event (WindowResize (bounds 960 540) half_random)"
    "\<not> list_ex pointer_event [Frame, WindowResize (bounds 960 540) half_random, Frame]"
    by simp_all
  note t1 = C10_pointer_starts_at_origin [where cfg = hero_config and m = "\<lparr>mx = 0, my = 0\<rparr>"
      and c = ?c and p = ?p and e = "WindowResize (bounds 960 540) half_random" and s = sample_system
      and num_str = fixed_str and k = Plain and opts = "hero_options 1920" and r = "bounds 1920 1080"
      and rnd = half_random and es = "[Frame, WindowResize (bounds 960 540) half_random, Frame]"]
  note t2 = C10_pointer_starts_at_origin [where cfg = hero_config and m = "\<lparr>mx = - 1000, my = - 1000\<rparr>"
      and c = ?c and p = ?p]
  have g1: "\<exists>q q0. update ?c \<lparr>mx = 0, my = 0\<rparr> hero_config ?p = Some q \<and>
      update ?c \<lparr>mx = 0, my = 0\<rparr> (hero_config\<lparr>mouseInteraction := False\<rparr>) ?p = Some q0 \<and>
      (vx q \<noteq> vx q0 \<or> vy q \<noteq> vy q0) \<and>
      0 \<le> (vx q - vx q0) * (px q - 0) + (vy q - vy q0) * (py q - 0)"
    using t1 h(1) lt mv by auto
  have g2: "update ?c \<lparr>mx = - 1000, my = - 1000\<rparr> hero_config ?p =
     update ?c \<lparr>mx = - 1000, my = - 1000\<rparr> (hero_config\<lparr>mouseInteraction := False\<rparr>) ?p"
    using t2 by simp
  have g3: "\<exists>s1. step fixed_str (WindowResize (bounds 960 540) half_random) sample_system = Some s1 \<and>
      mouse s1 = mouse sample_system"
    using t1 n(1) by blast
  have g4: "\<exists>s0 s1. construct Plain (hero_options 1920) (bounds 1920 1080) half_random fixed_str = Some s0 \<and>
      run fixed_str [Frame, WindowResize (bounds 960 540) half_random, Frame] s0 = Some s1 \<and>
      mouse s1 = \<lparr>mx = 0, my = 0\<rparr>"
    using t1 n(2) by blast
  from h(1) mv lt g1 g2 g3 g4 show ?thesis by simp
qed

end
